theory Spec2Isabelle
  imports Complex_Main
begin

section \<open>Python floats\<close>

text \<open>
  The control core computes on Python floats (IEEE binary64) and on numpy float64 arrays.
  A float is modelled by its value: a finite real, one of the two infinities, or NaN.
  The special values follow IEEE 754 (NaN is absorbing, every comparison with NaN is
  false, \<open>inf - inf\<close> and \<open>inf * 0\<close> are NaN). Finite arithmetic is the arithmetic of
  the reals: rounding and the sign of zero are not modelled, and overflow to infinity is
  modelled only for the operations of \<open>clamp_velocity\<close>, where it can raise.
\<close>

datatype pyfloat = Fin real | PInf | NInf | NaN

fun flt :: "pyfloat \<Rightarrow> pyfloat \<Rightarrow> bool" where
  "flt NaN y = False"
| "flt x NaN = False"
| "flt (Fin a) (Fin b) = (a < b)"
| "flt (Fin a) PInf = True"
| "flt (Fin a) NInf = False"
| "flt PInf y = False"
| "flt NInf (Fin b) = True"
| "flt NInf PInf = True"
| "flt NInf NInf = False"

fun fle :: "pyfloat \<Rightarrow> pyfloat \<Rightarrow> bool" where
  "fle NaN y = False"
| "fle x NaN = False"
| "fle (Fin a) (Fin b) = (a \<le> b)"
| "fle (Fin a) PInf = True"
| "fle (Fin a) NInf = False"
| "fle PInf (Fin b) = False"
| "fle PInf PInf = True"
| "fle PInf NInf = False"
| "fle NInf y = True"

definition fgt :: "pyfloat \<Rightarrow> pyfloat \<Rightarrow> bool" where
  "fgt x y = flt y x"

definition fge :: "pyfloat \<Rightarrow> pyfloat \<Rightarrow> bool" where
  "fge x y = fle y x"

fun fneg :: "pyfloat \<Rightarrow> pyfloat" where
  "fneg (Fin a) = Fin (- a)"
| "fneg PInf = NInf"
| "fneg NInf = PInf"
| "fneg NaN = NaN"

fun fadd :: "pyfloat \<Rightarrow> pyfloat \<Rightarrow> pyfloat" where
  "fadd NaN y = NaN"
| "fadd x NaN = NaN"
| "fadd (Fin a) (Fin b) = Fin (a + b)"
| "fadd (Fin a) PInf = PInf"
| "fadd (Fin a) NInf = NInf"
| "fadd PInf NInf = NaN"
| "fadd PInf y = PInf"
| "fadd NInf PInf = NaN"
| "fadd NInf y = NInf"

definition fsub :: "pyfloat \<Rightarrow> pyfloat \<Rightarrow> pyfloat" where
  "fsub x y = fadd x (fneg y)"

text \<open>The infinity of the sign of a non-zero real; \<open>inf * 0\<close> is NaN.\<close>

definition signed_inf :: "real \<Rightarrow> pyfloat" where
  "signed_inf a = (if a = 0 then NaN else if 0 < a then PInf else NInf)"

fun fmul :: "pyfloat \<Rightarrow> pyfloat \<Rightarrow> pyfloat" where
  "fmul NaN y = NaN"
| "fmul x NaN = NaN"
| "fmul (Fin a) (Fin b) = Fin (a * b)"
| "fmul (Fin a) PInf = signed_inf a"
| "fmul (Fin a) NInf = signed_inf (- a)"
| "fmul PInf (Fin b) = signed_inf b"
| "fmul NInf (Fin b) = signed_inf (- b)"
| "fmul PInf PInf = PInf"
| "fmul PInf NInf = NInf"
| "fmul NInf PInf = NInf"
| "fmul NInf NInf = PInf"

text \<open>
  Division of numpy arrays never raises: a finite value divided by zero is an infinity
  (of the dividend's sign, the zero taken as positive) and \<open>0 / 0\<close> is NaN.
\<close>

fun fdiv :: "pyfloat \<Rightarrow> pyfloat \<Rightarrow> pyfloat" where
  "fdiv NaN y = NaN"
| "fdiv x NaN = NaN"
| "fdiv (Fin a) (Fin b) = (if b = 0 then signed_inf a else Fin (a / b))"
| "fdiv (Fin a) PInf = Fin 0"
| "fdiv (Fin a) NInf = Fin 0"
| "fdiv PInf (Fin b) = (if 0 \<le> b then PInf else NInf)"
| "fdiv NInf (Fin b) = (if 0 \<le> b then NInf else PInf)"
| "fdiv x y = NaN"

fun fsqrt :: "pyfloat \<Rightarrow> pyfloat" where
  "fsqrt (Fin a) = (if a < 0 then NaN else Fin (sqrt a))"
| "fsqrt PInf = PInf"
| "fsqrt NInf = NaN"
| "fsqrt NaN = NaN"

text \<open>\<open>np.maximum\<close> propagates NaN.\<close>

definition fmaximum :: "pyfloat \<Rightarrow> pyfloat \<Rightarrow> pyfloat" where
  "fmaximum x y = (if x = NaN \<or> y = NaN then NaN else if flt x y then y else x)"

fun is_finite :: "pyfloat \<Rightarrow> bool" where
  "is_finite (Fin a) = True"
| "is_finite x = False"

section \<open>The landing state machine (control/fsm.py)\<close>

datatype LandingState =
  INIT | IDLE | SEARCH | ACQUIRE | ALIGN | DESCEND | TOUCHDOWN | ABORT | FAILSAFE

record SystemInputs =
  target_visible :: bool
  target_confidence :: pyfloat
  lateral_error_m :: pyfloat
  altitude_m :: pyfloat
  landability_score :: pyfloat
  mavlink_connected :: bool
  camera_connected :: bool
  arm_command :: bool
  abort_command :: bool
  timestamp :: pyfloat
  human_present :: bool
  variance :: pyfloat

record SystemOutputs =
  state :: LandingState
  publish_landing_target :: bool
  abort_reason :: "string option"
  confidence_gain :: pyfloat
  state_changed :: bool

text \<open>
  The fields of a \<open>LandingFSM\<close> instance: the current and the previous state, the
  thresholds given to the constructor, and the counters.
\<close>

record LandingFSM =
  fsm_state :: LandingState
  fsm_prev_state :: LandingState
  acquire_confidence :: pyfloat
  align_error_m :: pyfloat
  abort_landability :: pyfloat
  touchdown_altitude_m :: pyfloat
  max_variance :: pyfloat
  consecutive_frames_for_acquire :: int
  target_lost_timeout_s :: pyfloat
  consecutive_detections :: int
  last_target_time :: "pyfloat option"
  fsm_abort_reason :: "string option"

definition LandingFSM_init ::
  "pyfloat \<Rightarrow> pyfloat \<Rightarrow> pyfloat \<Rightarrow> pyfloat \<Rightarrow> pyfloat \<Rightarrow> int \<Rightarrow> pyfloat \<Rightarrow> LandingFSM" where
  "LandingFSM_init acq al ab td mv n tlo =
     \<lparr> fsm_state = INIT, fsm_prev_state = INIT,
       acquire_confidence = acq, align_error_m = al, abort_landability = ab,
       touchdown_altitude_m = td, max_variance = mv,
       consecutive_frames_for_acquire = n, target_lost_timeout_s = tlo,
       consecutive_detections = 0, last_target_time = None, fsm_abort_reason = None \<rparr>"

text \<open>The constructor's default arguments.\<close>

definition default_fsm :: LandingFSM where
  "default_fsm =
     LandingFSM_init (Fin (7 / 10)) (Fin (1 / 4)) (Fin (2 / 5)) (Fin (1 / 2)) (Fin (1 / 2)) 5 (Fin 2)"

definition transition_to :: "LandingState \<Rightarrow> LandingFSM \<Rightarrow> LandingFSM" where
  "transition_to new_state f =
     (if new_state \<noteq> fsm_state f then f\<lparr>fsm_state := new_state\<rparr> else f)"

definition compute_gain :: "LandingFSM \<Rightarrow> pyfloat" where
  "compute_gain f =
     (if fsm_state f = SEARCH then Fin (1 / 2)
      else if fsm_state f = ACQUIRE then Fin (7 / 10)
      else Fin 1)"

definition make_output :: "LandingFSM \<Rightarrow> SystemOutputs" where
  "make_output f =
     \<lparr> state = fsm_state f,
       publish_landing_target = (fsm_state f \<in> {ACQUIRE, ALIGN, DESCEND}),
       abort_reason = fsm_abort_reason f,
       confidence_gain = compute_gain f,
       state_changed = (fsm_state f \<noteq> fsm_prev_state f) \<rparr>"

definition handle_init :: "SystemInputs \<Rightarrow> LandingFSM \<Rightarrow> LandingFSM" where
  "handle_init i f =
     (if mavlink_connected i \<and> camera_connected i then transition_to IDLE f else f)"

definition handle_idle :: "SystemInputs \<Rightarrow> LandingFSM \<Rightarrow> LandingFSM" where
  "handle_idle i f =
     (if arm_command i then
        (if target_visible i then transition_to ACQUIRE f else transition_to SEARCH f)
      else f)"

definition handle_search :: "SystemInputs \<Rightarrow> LandingFSM \<Rightarrow> LandingFSM" where
  "handle_search i f =
     (if target_visible i \<and> fge (target_confidence i) (acquire_confidence f) then
        (let f1 = f\<lparr>consecutive_detections := consecutive_detections f + 1\<rparr> in
         if consecutive_detections f1 \<ge> consecutive_frames_for_acquire f1
         then (transition_to ACQUIRE f1)\<lparr>consecutive_detections := 0\<rparr>
         else f1)
      else f\<lparr>consecutive_detections := 0\<rparr>)"

definition handle_acquire :: "SystemInputs \<Rightarrow> LandingFSM \<Rightarrow> LandingFSM" where
  "handle_acquire i f =
     (if \<not> target_visible i then transition_to SEARCH f
      else if flt (landability_score i) (abort_landability f)
      then (transition_to ABORT f)\<lparr>fsm_abort_reason := Some ''low_landability''\<rparr>
      else if flt (variance i) (max_variance f) then transition_to ALIGN f
      else f)"

text \<open>
  \<open>_handle_target_lost\<close>: the timer \<open>_last_target_time\<close> is set when it is unset,
  then compared with the current timestamp.
\<close>

definition handle_target_lost :: "SystemInputs \<Rightarrow> LandingFSM \<Rightarrow> LandingFSM" where
  "handle_target_lost i f =
     (let t0 = (case last_target_time f of None \<Rightarrow> timestamp i | Some t \<Rightarrow> t);
          f1 = f\<lparr>last_target_time := Some t0\<rparr>
      in if fgt (fsub (timestamp i) t0) (target_lost_timeout_s f1)
         then (transition_to SEARCH f1)\<lparr>last_target_time := None\<rparr>
         else f1)"

definition handle_align :: "SystemInputs \<Rightarrow> LandingFSM \<Rightarrow> LandingFSM" where
  "handle_align i f =
     (if \<not> target_visible i then handle_target_lost i f
      else if flt (landability_score i) (abort_landability f)
      then (transition_to ABORT f)\<lparr>fsm_abort_reason := Some ''low_landability''\<rparr>
      else if fle (lateral_error_m i) (align_error_m f) then transition_to DESCEND f
      else f)"

definition handle_descend :: "SystemInputs \<Rightarrow> LandingFSM \<Rightarrow> LandingFSM" where
  "handle_descend i f =
     (if \<not> target_visible i then handle_target_lost i f
      else if flt (landability_score i) (abort_landability f)
      then (transition_to ABORT f)\<lparr>fsm_abort_reason := Some ''low_landability''\<rparr>
      else if fle (altitude_m i) (touchdown_altitude_m f) then transition_to TOUCHDOWN f
      else f)"

definition handle_touchdown :: "SystemInputs \<Rightarrow> LandingFSM \<Rightarrow> LandingFSM" where
  "handle_touchdown i f = f"

definition handle_abort :: "SystemInputs \<Rightarrow> LandingFSM \<Rightarrow> LandingFSM" where
  "handle_abort i f = f"

definition handle_failsafe :: "SystemInputs \<Rightarrow> LandingFSM \<Rightarrow> LandingFSM" where
  "handle_failsafe i f = f"

text \<open>
  \<open>tick\<close> returns the instance after the call and the \<open>SystemOutputs\<close> it returns.
\<close>

definition tick :: "SystemInputs \<Rightarrow> LandingFSM \<Rightarrow> LandingFSM \<times> SystemOutputs" where
  "tick i f =
     (let f0 = f\<lparr>fsm_prev_state := fsm_state f\<rparr> in
      if \<not> mavlink_connected i \<or> \<not> camera_connected i then
        (let f1 = (transition_to FAILSAFE f0)\<lparr>fsm_abort_reason := Some ''link_lost''\<rparr>
         in (f1, make_output f1))
      else if abort_command i then
        (let f1 = (transition_to ABORT f0)\<lparr>fsm_abort_reason := Some ''external_command''\<rparr>
         in (f1, make_output f1))
      else if human_present i \<and> fsm_state f0 \<notin> {INIT, IDLE, ABORT, FAILSAFE} then
        (let f1 = (transition_to ABORT f0)\<lparr>fsm_abort_reason := Some ''human_present''\<rparr>
         in (f1, make_output f1))
      else
        (let f1 = (case fsm_state f0 of
                     INIT \<Rightarrow> handle_init i f0
                   | IDLE \<Rightarrow> handle_idle i f0
                   | SEARCH \<Rightarrow> handle_search i f0
                   | ACQUIRE \<Rightarrow> handle_acquire i f0
                   | ALIGN \<Rightarrow> handle_align i f0
                   | DESCEND \<Rightarrow> handle_descend i f0
                   | TOUCHDOWN \<Rightarrow> handle_touchdown i f0
                   | ABORT \<Rightarrow> handle_abort i f0
                   | FAILSAFE \<Rightarrow> handle_failsafe i f0)
         in (f1, make_output f1)))"

definition reset :: "LandingFSM \<Rightarrow> LandingFSM" where
  "reset f = f\<lparr> fsm_state := INIT, fsm_prev_state := INIT, consecutive_detections := 0,
               last_target_time := None, fsm_abort_reason := None \<rparr>"

text \<open>A run: the instance after a sequence of ticks, and the outputs of the ticks.\<close>

fun run_ticks :: "LandingFSM \<Rightarrow> SystemInputs list \<Rightarrow> LandingFSM" where
  "run_ticks f [] = f"
| "run_ticks f (i # ins) = run_ticks (fst (tick i f)) ins"

fun run_outputs :: "LandingFSM \<Rightarrow> SystemInputs list \<Rightarrow> SystemOutputs list" where
  "run_outputs f [] = []"
| "run_outputs f (i # ins) = snd (tick i f) # run_outputs (fst (tick i f)) ins"

text \<open>The default \<open>SystemInputs\<close> (the timestamp, defaulted to the clock, is given).\<close>

definition default_inputs :: "pyfloat \<Rightarrow> SystemInputs" where
  "default_inputs t =
     \<lparr> target_visible = False, target_confidence = Fin 0, lateral_error_m = PInf,
       altitude_m = Fin 100, landability_score = Fin 1, mavlink_connected = True,
       camera_connected = True, arm_command = False, abort_command = False,
       timestamp = t, human_present = False, variance = Fin 0 \<rparr>"

text \<open>
  The inputs of an approach with the target in view, well centred and high above the pad.
\<close>

definition approach_inputs :: "pyfloat \<Rightarrow> SystemInputs" where
  "approach_inputs t =
     (default_inputs t)\<lparr> arm_command := True, target_visible := True,
        target_confidence := Fin (4 / 5), variance := Fin (3 / 10),
        lateral_error_m := Fin (1 / 10), altitude_m := Fin 5 \<rparr>"

text \<open>The same inputs with the lateral error unknown: the approach stays in \<open>ALIGN\<close>.\<close>

definition acquire_inputs :: "pyfloat \<Rightarrow> SystemInputs" where
  "acquire_inputs t =
     (default_inputs t)\<lparr> arm_command := True, target_visible := True,
        target_confidence := Fin (4 / 5), variance := Fin (3 / 10) \<rparr>"

text \<open>The constructor's arguments, which no method assigns again.\<close>

definition thresholds ::
  "LandingFSM \<Rightarrow> pyfloat \<times> pyfloat \<times> pyfloat \<times> pyfloat \<times> pyfloat \<times> int \<times> pyfloat" where
  "thresholds f = (acquire_confidence f, align_error_m f, abort_landability f,
     touchdown_altitude_m f, max_variance f, consecutive_frames_for_acquire f,
     target_lost_timeout_s f)"

section \<open>The safety supervisor's velocity clamp (control/safety.py)\<close>

datatype py_error = ValueError string | ZeroDivisionError | TypeError | OverflowError | LinAlgError

text \<open>
  \<open>clamp_velocity\<close> computes on Python floats, whose power operator raises
  \<open>OverflowError\<close> when a finite result leaves the range of binary64, and whose other
  operations return an infinity then. A real result leaves the range when its magnitude
  reaches \<open>2 ^ 1024 - 2 ^ 970\<close>, the least magnitude that rounds to infinity. For these
  operations the overflow is modelled; rounding within the range is not.
\<close>

definition overflow_threshold :: real where
  "overflow_threshold = 2 ^ 1024 - 2 ^ 970"

definition py_range :: "pyfloat \<Rightarrow> pyfloat" where
  "py_range x =
     (case x of
        Fin r \<Rightarrow> (if overflow_threshold \<le> \<bar>r\<bar> then (if 0 < r then PInf else NInf) else Fin r)
      | PInf \<Rightarrow> PInf | NInf \<Rightarrow> NInf | NaN \<Rightarrow> NaN)"

definition py_mul :: "pyfloat \<Rightarrow> pyfloat \<Rightarrow> pyfloat" where
  "py_mul x y = py_range (fmul x y)"

definition py_add :: "pyfloat \<Rightarrow> pyfloat \<Rightarrow> pyfloat" where
  "py_add x y = py_range (fadd x y)"

text \<open>Division of Python floats raises \<open>ZeroDivisionError\<close> on a zero divisor.\<close>

definition py_truediv :: "pyfloat \<Rightarrow> pyfloat \<Rightarrow> py_error + pyfloat" where
  "py_truediv x y = (if y = Fin 0 then Inl ZeroDivisionError else Inr (py_range (fdiv x y)))"

text \<open>\<open>x ** 2\<close>: the square, \<open>OverflowError\<close> when the square of a finite float overflows.\<close>

definition py_pow2 :: "pyfloat \<Rightarrow> py_error + pyfloat" where
  "py_pow2 x =
     (case fmul x x of
        Fin r \<Rightarrow> (if overflow_threshold \<le> r then Inl OverflowError else Inr (Fin r))
      | PInf \<Rightarrow> Inr PInf | NInf \<Rightarrow> Inr NInf | NaN \<Rightarrow> Inr NaN)"

text \<open>
  \<open>x ** 0.5\<close>: the square root; of an infinity of either sign it is \<open>inf\<close>. Of a
  negative finite float it is a complex number, and the comparison of a complex number
  with the limit, which follows in \<open>clamp_velocity\<close>, raises \<open>TypeError\<close>.
\<close>

definition py_pow_half :: "pyfloat \<Rightarrow> py_error + pyfloat" where
  "py_pow_half x =
     (case x of
        Fin r \<Rightarrow> (if r < 0 then Inl TypeError else Inr (Fin (sqrt r)))
      | PInf \<Rightarrow> Inr PInf | NInf \<Rightarrow> Inr PInf | NaN \<Rightarrow> Inr NaN)"

record SafetyLimits =
  max_lateral_speed_mps :: pyfloat
  max_descent_speed_mps :: pyfloat
  min_safe_altitude_m :: pyfloat
  max_jerk_mps3 :: pyfloat
  perception_timeout_s :: pyfloat
  mavlink_timeout_s :: pyfloat

definition default_limits :: SafetyLimits where
  "default_limits =
     \<lparr> max_lateral_speed_mps = Fin (3 / 2), max_descent_speed_mps = Fin (7 / 10),
       min_safe_altitude_m = Fin 2, max_jerk_mps3 = Fin 5,
       perception_timeout_s = Fin 1, mavlink_timeout_s = Fin 3 \<rparr>"

text \<open>
  \<open>clamp_velocity\<close> reads the supervisor's limits only; it is given them directly.
\<close>

definition clamp_velocity ::
  "SafetyLimits \<Rightarrow> pyfloat \<Rightarrow> pyfloat \<Rightarrow> pyfloat \<Rightarrow> pyfloat
     \<Rightarrow> py_error + (pyfloat \<times> pyfloat \<times> pyfloat)" where
  "clamp_velocity limits vx vy vz confidence =
     (let lat_limit = py_mul (max_lateral_speed_mps limits) confidence;
          desc_limit = py_mul (max_descent_speed_mps limits) confidence
      in case py_pow2 vx of
           Inl e \<Rightarrow> Inl e
         | Inr vx2 \<Rightarrow>
        (case py_pow2 vy of
           Inl e \<Rightarrow> Inl e
         | Inr vy2 \<Rightarrow>
        (case py_pow_half (py_add vx2 vy2) of
           Inl e \<Rightarrow> Inl e
         | Inr lateral_speed \<Rightarrow>
        (let lateral =
               (if fgt lateral_speed lat_limit then
                  (case py_truediv lat_limit lateral_speed of
                     Inl e \<Rightarrow> Inl e
                   | Inr scale \<Rightarrow> Inr (py_mul vx scale, py_mul vy scale))
                else Inr (vx, vy))
         in case lateral of
              Inl e \<Rightarrow> Inl e
            | Inr (vx1, vy1) \<Rightarrow>
                Inr (vx1, vy1, if fgt vz desc_limit then desc_limit else vz)))))"

section \<open>The exponential smoother (perception/pose/filtering.py)\<close>

text \<open>
  A position, a variance and a velocity are numpy arrays of three floats; arithmetic on
  them is componentwise, a scalar operand being applied to every component.
\<close>

text \<open>\<open>a ** 2\<close> on a numpy array squares every component and never raises.\<close>

definition fpow2 :: "pyfloat \<Rightarrow> pyfloat" where
  "fpow2 x = fmul x x"

type_synonym vec3 = "pyfloat \<times> pyfloat \<times> pyfloat"

fun vmap :: "(pyfloat \<Rightarrow> pyfloat) \<Rightarrow> vec3 \<Rightarrow> vec3" where
  "vmap g (a, b, c) = (g a, g b, g c)"

fun vmap2 :: "(pyfloat \<Rightarrow> pyfloat \<Rightarrow> pyfloat) \<Rightarrow> vec3 \<Rightarrow> vec3 \<Rightarrow> vec3" where
  "vmap2 g (a, b, c) (x, y, z) = (g a x, g b y, g c z)"

fun vsum :: "vec3 \<Rightarrow> pyfloat" where
  "vsum (a, b, c) = fadd (fadd a b) c"

definition vfull :: "pyfloat \<Rightarrow> vec3" where
  "vfull x = (x, x, x)"

fun vfin :: "real \<times> real \<times> real \<Rightarrow> vec3" where
  "vfin (a, b, c) = (Fin a, Fin b, Fin c)"

record FilteredPose =
  pose_position :: vec3
  pose_variance :: vec3
  pose_velocity :: vec3
  pose_is_valid :: bool
  pose_timestamp :: pyfloat

record ExpSmoother =
  alpha :: pyfloat
  outlier_threshold :: pyfloat
  initial_variance :: pyfloat
  smoother_state :: "vec3 option"
  smoother_variance :: "vec3 option"
  last_time :: "pyfloat option"
  smoother_velocity :: vec3

definition ExpSmoother_init :: "pyfloat \<Rightarrow> pyfloat \<Rightarrow> pyfloat \<Rightarrow> py_error + ExpSmoother" where
  "ExpSmoother_init a thr iv =
     (if \<not> (flt (Fin 0) a \<and> fle a (Fin 1)) then Inl (ValueError ''alpha must be in (0, 1]'')
      else Inr \<lparr> alpha = a, outlier_threshold = thr, initial_variance = iv,
                 smoother_state = None, smoother_variance = None, last_time = None,
                 smoother_velocity = vfull (Fin 0) \<rparr>)"

definition is_outlier :: "ExpSmoother \<Rightarrow> vec3 \<Rightarrow> bool" where
  "is_outlier sm measurement =
     (case smoother_state sm of
        None \<Rightarrow> False
      | Some s \<Rightarrow>
          (case smoother_variance sm of
             None \<Rightarrow> False
           | Some v \<Rightarrow>
               (let diff = vmap2 fsub measurement s;
                    var_safe = vmap (\<lambda>x. fmaximum x (Fin (1 / 1000000))) v;
                    mahal_sq = vsum (vmap2 fdiv (vmap fpow2 diff) var_safe)
                in fgt (fsqrt mahal_sq) (outlier_threshold sm))))"

text \<open>
  \<open>update\<close> returns the smoother after the call and the \<open>FilteredPose\<close> it returns.
  The variance is optional for the type checker only; arithmetic on \<open>None\<close> raises
  \<open>TypeError\<close>.
\<close>

definition update ::
  "ExpSmoother \<Rightarrow> vec3 \<Rightarrow> pyfloat \<Rightarrow> pyfloat \<Rightarrow> py_error + (ExpSmoother \<times> FilteredPose)" where
  "update sm measurement measurement_variance ts =
     (case smoother_state sm of
        None \<Rightarrow>
          (let v0 = vfull (initial_variance sm);
               sm1 = sm\<lparr> smoother_state := Some measurement, smoother_variance := Some v0,
                         last_time := Some ts \<rparr>
           in Inr (sm1, \<lparr> pose_position = measurement, pose_variance = v0,
                          pose_velocity = smoother_velocity sm, pose_is_valid = True,
                          pose_timestamp = ts \<rparr>))
      | Some s \<Rightarrow>
          if is_outlier sm measurement then
            (case smoother_variance sm of
               None \<Rightarrow> Inl TypeError
             | Some v \<Rightarrow>
                 (let v1 = vmap (\<lambda>x. fmul x (Fin (3 / 2))) v;
                      sm1 = sm\<lparr> smoother_variance := Some v1 \<rparr>
                  in Inr (sm1, \<lparr> pose_position = s, pose_variance = v1,
                                 pose_velocity = smoother_velocity sm, pose_is_valid = True,
                                 pose_timestamp = ts \<rparr>)))
          else
            (let a = alpha sm;
                 vel1 =
                   (case last_time sm of
                      None \<Rightarrow> smoother_velocity sm
                    | Some lt \<Rightarrow>
                        if fgt ts lt then
                          (let dt = fsub ts lt;
                               new_velocity = vmap (\<lambda>x. fdiv x dt) (vmap2 fsub measurement s)
                           in vmap2 fadd (vmap (fmul a) new_velocity)
                                (vmap (fmul (fsub (Fin 1) a)) (smoother_velocity sm)))
                        else smoother_velocity sm);
                 s1 = vmap2 fadd (vmap (fmul a) measurement) (vmap (fmul (fsub (Fin 1) a)) s)
             in case smoother_variance sm of
                  None \<Rightarrow> Inl TypeError
                | Some v \<Rightarrow>
                    (let v1 = vmap (\<lambda>x. fadd (fmul a measurement_variance)
                                            (fmul (fsub (Fin 1) a) x)) v;
                         sm1 = sm\<lparr> smoother_velocity := vel1, smoother_state := Some s1,
                                   smoother_variance := Some v1, last_time := Some ts \<rparr>
                     in Inr (sm1, \<lparr> pose_position = s1, pose_variance = v1,
                                    pose_velocity = vel1, pose_is_valid = True,
                                    pose_timestamp = ts \<rparr>))))"

text \<open>A run of updates: the smoother after them and the poses returned, in order.\<close>

fun update_seq ::
  "ExpSmoother \<Rightarrow> (vec3 \<times> pyfloat \<times> pyfloat) list
     \<Rightarrow> py_error + (ExpSmoother \<times> FilteredPose list)" where
  "update_seq sm [] = Inr (sm, [])"
| "update_seq sm ((m, mv, ts) # rest) =
     (case update sm m mv ts of
        Inl e \<Rightarrow> Inl e
      | Inr (sm1, p) \<Rightarrow>
          (case update_seq sm1 rest of
             Inl e \<Rightarrow> Inl e
           | Inr (sm2, ps) \<Rightarrow> Inr (sm2, p # ps)))"

section \<open>The Kalman filter (perception/pose/filtering.py)\<close>

text \<open>
  The state vector has six components and the matrices are 6x6, 3x6 and 3x3 numpy
  arrays. An array is modelled by the function from its indices to its entries; the
  shapes, fixed by the constructor, are the bounds of the sums below. Entries at indices
  outside the shape are never read.
\<close>

type_synonym vec = "nat \<Rightarrow> pyfloat"

type_synonym mat = "nat \<Rightarrow> nat \<Rightarrow> pyfloat"

definition np_zeros :: vec where
  "np_zeros = (\<lambda>i. Fin 0)"

definition np_zeros2 :: mat where
  "np_zeros2 = (\<lambda>i j. Fin 0)"

definition np_eye :: mat where
  "np_eye = (\<lambda>i j. if i = j then Fin 1 else Fin 0)"

definition mat_set :: "mat \<Rightarrow> nat \<Rightarrow> nat \<Rightarrow> pyfloat \<Rightarrow> mat" where
  "mat_set A i j v = A(i := (A i)(j := v))"

definition mat_scale :: "mat \<Rightarrow> pyfloat \<Rightarrow> mat" where
  "mat_scale A c = (\<lambda>i j. fmul (A i j) c)"

definition mat_add :: "mat \<Rightarrow> mat \<Rightarrow> mat" where
  "mat_add A B = (\<lambda>i j. fadd (A i j) (B i j))"

definition mat_sub :: "mat \<Rightarrow> mat \<Rightarrow> mat" where
  "mat_sub A B = (\<lambda>i j. fsub (A i j) (B i j))"

definition mat_T :: "mat \<Rightarrow> mat" where
  "mat_T A = (\<lambda>i j. A j i)"

definition vec_add :: "vec \<Rightarrow> vec \<Rightarrow> vec" where
  "vec_add u v = (\<lambda>i. fadd (u i) (v i))"

definition vec_sub :: "vec \<Rightarrow> vec \<Rightarrow> vec" where
  "vec_sub u v = (\<lambda>i. fsub (u i) (v i))"

text \<open>The sum of products over the first \<open>n\<close> indices, and the matrix products \<open>@\<close>.\<close>

definition dot :: "nat \<Rightarrow> vec \<Rightarrow> vec \<Rightarrow> pyfloat" where
  "dot n u v = foldl (\<lambda>acc k. fadd acc (fmul (u k) (v k))) (Fin 0) [0..<n]"

definition mat_mul :: "nat \<Rightarrow> mat \<Rightarrow> mat \<Rightarrow> mat" where
  "mat_mul n A B = (\<lambda>i j. dot n (A i) (\<lambda>k. B k j))"

definition mat_vec :: "nat \<Rightarrow> mat \<Rightarrow> vec \<Rightarrow> vec" where
  "mat_vec n A x = (\<lambda>i. dot n (A i) x)"

text \<open>
  \<open>np.linalg.inv\<close> on a 3x3 matrix is modelled by the exact inverse, the transposed
  matrix of cofactors divided by the determinant; it raises \<open>LinAlgError\<close> on a singular
  matrix.
\<close>

definition cofactor3 :: "mat \<Rightarrow> nat \<Rightarrow> nat \<Rightarrow> pyfloat" where
  "cofactor3 A i j =
     fsub (fmul (A ((i + 1) mod 3) ((j + 1) mod 3)) (A ((i + 2) mod 3) ((j + 2) mod 3)))
          (fmul (A ((i + 1) mod 3) ((j + 2) mod 3)) (A ((i + 2) mod 3) ((j + 1) mod 3)))"

definition det3 :: "mat \<Rightarrow> pyfloat" where
  "det3 A = dot 3 (A 0) (cofactor3 A 0)"

definition np_linalg_inv :: "mat \<Rightarrow> py_error + mat" where
  "np_linalg_inv A =
     (if det3 A = Fin 0 then Inl LinAlgError
      else Inr (\<lambda>i j. fdiv (cofactor3 A j i) (det3 A)))"

text \<open>\<open>a != b\<close> on floats: true whenever one of them is NaN.\<close>

definition fne :: "pyfloat \<Rightarrow> pyfloat \<Rightarrow> bool" where
  "fne x y = (x = NaN \<or> y = NaN \<or> x \<noteq> y)"

fun vec_of :: "vec3 \<Rightarrow> vec" where
  "vec_of (a, b, c) = (\<lambda>i. if i = 0 then a else if i = 1 then b else c)"

record KalmanFilter3D =
  kf_dt :: pyfloat
  kf_x :: vec
  kf_P :: mat
  kf_F :: mat
  kf_H :: mat
  kf_Q :: mat
  kf_R :: mat
  kf_initialized :: bool

definition KalmanFilter3D_init :: "pyfloat \<Rightarrow> pyfloat \<Rightarrow> pyfloat \<Rightarrow> KalmanFilter3D" where
  "KalmanFilter3D_init process_noise measurement_noise dt =
     \<lparr> kf_dt = dt,
       kf_x = np_zeros,
       kf_P = mat_scale np_eye (Fin 1),
       kf_F = mat_set (mat_set (mat_set np_eye 0 3 dt) 1 4 dt) 2 5 dt,
       kf_H = mat_set (mat_set (mat_set np_zeros2 0 0 (Fin 1)) 1 1 (Fin 1)) 2 2 (Fin 1),
       kf_Q = mat_scale np_eye process_noise,
       kf_R = mat_scale np_eye measurement_noise,
       kf_initialized = False \<rparr>"

text \<open>
  The pose returned by \<open>KalmanFilter3D.update\<close>: the first three components of the
  state, the first three diagonal entries of the covariance, the last three components
  of the state; the timestamp is left at its default.
\<close>

definition kalman_pose :: "KalmanFilter3D \<Rightarrow> FilteredPose" where
  "kalman_pose k =
     \<lparr> pose_position = (kf_x k 0, kf_x k 1, kf_x k 2),
       pose_variance = (kf_P k 0 0, kf_P k 1 1, kf_P k 2 2),
       pose_velocity = (kf_x k 3, kf_x k 4, kf_x k 5),
       pose_is_valid = True,
       pose_timestamp = Fin 0 \<rparr>"

definition KalmanFilter3D_update ::
  "KalmanFilter3D \<Rightarrow> vec3 \<Rightarrow> pyfloat option \<Rightarrow> py_error + (KalmanFilter3D \<times> FilteredPose)" where
  "KalmanFilter3D_update k measurement dt =
     (if \<not> kf_initialized k then
        (let k1 = k\<lparr> kf_x := (\<lambda>i. if i < 3 then vec_of measurement i else kf_x k i),
                      kf_initialized := True \<rparr>
         in Inr (k1, kalman_pose k1))
      else
        (let k1 = (case dt of
                     None \<Rightarrow> k
                   | Some d \<Rightarrow>
                       if fne d (kf_dt k)
                       then k\<lparr> kf_dt := d,
                               kf_F := mat_set (mat_set (mat_set (kf_F k) 0 3 d) 1 4 d) 2 5 d \<rparr>
                       else k);
             x1 = mat_vec 6 (kf_F k1) (kf_x k1);
             P1 = mat_add (mat_mul 6 (mat_mul 6 (kf_F k1) (kf_P k1)) (mat_T (kf_F k1))) (kf_Q k1);
             y = vec_sub (vec_of measurement) (mat_vec 6 (kf_H k1) x1);
             S = mat_add (mat_mul 6 (mat_mul 6 (kf_H k1) P1) (mat_T (kf_H k1))) (kf_R k1)
         in case np_linalg_inv S of
              Inl e \<Rightarrow> Inl e
            | Inr S_inv \<Rightarrow>
                (let K = mat_mul 3 (mat_mul 6 P1 (mat_T (kf_H k1))) S_inv;
                     x2 = vec_add x1 (mat_vec 3 K y);
                     P2 = mat_mul 6 (mat_sub np_eye (mat_mul 3 K (kf_H k1))) P1;
                     k2 = k1\<lparr> kf_x := x2, kf_P := P2 \<rparr>
                 in Inr (k2, kalman_pose k2))))"

text \<open>
  \<open>ExpSmoother(alpha=0.5)\<close>, with the default threshold 4.0 and initial variance 1.0,
  before its first update and after the update \<open>update([1, 1, 1], timestamp=0)\<close>.
\<close>

definition smoother_half :: ExpSmoother where
  "smoother_half =
     \<lparr> alpha = Fin (1 / 2), outlier_threshold = Fin 4, initial_variance = Fin 1,
       smoother_state = None, smoother_variance = None, last_time = None,
       smoother_velocity = vfull (Fin 0) \<rparr>"

definition smoother_one :: ExpSmoother where
  "smoother_one =
     smoother_half\<lparr> smoother_state := Some (vfin (1, 1, 1)),
                    smoother_variance := Some (vfin (1, 1, 1)), last_time := Some (Fin 0) \<rparr>"

lemmas smoother_eval = update_def is_outlier_def Let_def fsub_def fpow2_def fmaximum_def
  fgt_def vfull_def smoother_half_def smoother_one_def signed_inf_def ExpSmoother_init_def

text \<open>
  \<open>KalmanFilter3D()\<close> with its default arguments, before its first update and after
  the update \<open>update([1, 1, 1])\<close>.
\<close>

definition kalman_default :: KalmanFilter3D where
  "kalman_default = KalmanFilter3D_init (Fin (1 / 10)) (Fin (1 / 2)) (Fin (1 / 20))"

definition kalman_one :: KalmanFilter3D where
  "kalman_one =
     kalman_default\<lparr> kf_x := (\<lambda>i. if i < 3 then vec_of (Fin 1, Fin 1, Fin 1) i else kf_x kalman_default i),
                     kf_initialized := True \<rparr>"

lemmas clamp_eval = clamp_velocity_def Let_def py_mul_def py_add_def py_range_def py_pow2_def
  py_pow_half_def py_truediv_def fgt_def signed_inf_def overflow_threshold_def default_limits_def

lemmas fsm_eval = tick_def Let_def transition_to_def make_output_def compute_gain_def
  handle_init_def handle_idle_def handle_search_def handle_acquire_def handle_align_def
  handle_descend_def handle_touchdown_def handle_abort_def handle_failsafe_def
  handle_target_lost_def default_fsm_def LandingFSM_init_def default_inputs_def
  approach_inputs_def acquire_inputs_def fgt_def fge_def fsub_def reset_def


section \<open>Link loss\<close>

text \<open>
  C3. Whenever the MAVLink link or the camera is not connected, a tick ends in
  \<open>FAILSAFE\<close> with abort reason \<open>link_lost\<close>, from every state and whatever the other
  input fields hold, the abort command included.
\<close>

theorem tick_link_lost_failsafe:
  assumes "\<not> mavlink_connected i \<or> \<not> camera_connected i"
  shows "fsm_state (fst (tick i f)) = FAILSAFE
       \<and> state (snd (tick i f)) = FAILSAFE
       \<and> abort_reason (snd (tick i f)) = Some ''link_lost''"
  using assms by (auto simp: tick_def Let_def transition_to_def make_output_def)

theorem tick_link_lost_failsafe_witness:
  "state (snd (tick ((default_inputs (Fin 0))\<lparr>camera_connected := False, abort_command := True\<rparr>)
                    (default_fsm\<lparr>fsm_state := DESCEND\<rparr>))) = FAILSAFE
   \<and> abort_reason (snd (tick ((default_inputs (Fin 0))\<lparr>camera_connected := False, abort_command := True\<rparr>)
                    (default_fsm\<lparr>fsm_state := DESCEND\<rparr>))) = Some ''link_lost''"
  using tick_link_lost_failsafe
    [of "(default_inputs (Fin 0))\<lparr>camera_connected := False, abort_command := True\<rparr>"
        "default_fsm\<lparr>fsm_state := DESCEND\<rparr>"]
  by (simp add: default_inputs_def)

section \<open>Terminal states\<close>

lemma tick_terminal_closed:
  "fsm_state f \<in> {TOUCHDOWN, ABORT, FAILSAFE} \<Longrightarrow>
   fsm_state (fst (tick i f)) \<in> {TOUCHDOWN, ABORT, FAILSAFE}"
  by (auto simp: tick_def Let_def transition_to_def handle_touchdown_def handle_abort_def
      handle_failsafe_def)

lemma tick_terminal_same:
  "fsm_state f \<in> {TOUCHDOWN, ABORT, FAILSAFE} \<Longrightarrow>
   mavlink_connected i \<Longrightarrow> camera_connected i \<Longrightarrow> \<not> abort_command i \<Longrightarrow>
   \<not> (human_present i \<and> fsm_state f = TOUCHDOWN) \<Longrightarrow>
   fsm_state (fst (tick i f)) = fsm_state f"
  by (auto simp: tick_def Let_def transition_to_def handle_touchdown_def handle_abort_def
      handle_failsafe_def)

text \<open>
  C1, as stated, fails: the three priority rules of \<open>tick\<close> come before the dispatch on
  the state, so they also fire in a terminal state. A landing that reached \<open>TOUCHDOWN\<close>
  from a fresh instance leaves it for \<open>FAILSAFE\<close> on the next tick without the MAVLink
  link.
\<close>

theorem touchdown_left_on_link_loss:
  "fsm_state (run_ticks default_fsm
      [approach_inputs (Fin 0), approach_inputs (Fin 1), approach_inputs (Fin 2),
       approach_inputs (Fin 3), (approach_inputs (Fin 4))\<lparr>altitude_m := Fin (3 / 10)\<rparr>])
     = TOUCHDOWN
   \<and> fsm_state (run_ticks default_fsm
      [approach_inputs (Fin 0), approach_inputs (Fin 1), approach_inputs (Fin 2),
       approach_inputs (Fin 3), (approach_inputs (Fin 4))\<lparr>altitude_m := Fin (3 / 10)\<rparr>,
       (default_inputs (Fin 5))\<lparr>mavlink_connected := False\<rparr>])
     = FAILSAFE"
  by (simp add: fsm_eval)

text \<open>
  C1, amended. From \<open>TOUCHDOWN\<close>, \<open>ABORT\<close> or \<open>FAILSAFE\<close>, every sequence of ticks
  stays within these three states; a sequence of ticks none of which triggers a priority
  rule (both links connected, no abort command, and no human present while in
  \<open>TOUCHDOWN\<close>) leaves the state as it is; \<open>reset\<close> returns to \<open>INIT\<close>.
\<close>

theorem terminal_states_closed:
  assumes "fsm_state f \<in> {TOUCHDOWN, ABORT, FAILSAFE}"
  shows "fsm_state (run_ticks f ins) \<in> {TOUCHDOWN, ABORT, FAILSAFE}
       \<and> ((\<forall>i \<in> set ins. mavlink_connected i \<and> camera_connected i \<and> \<not> abort_command i
                \<and> \<not> (human_present i \<and> fsm_state f = TOUCHDOWN))
            \<longrightarrow> fsm_state (run_ticks f ins) = fsm_state f)
       \<and> fsm_state (reset f) = INIT"
  using assms
proof (induction ins arbitrary: f)
  case Nil
  then show ?case by (simp add: reset_def)
next
  case (Cons i ins)
  have c: "fsm_state (fst (tick i f)) \<in> {TOUCHDOWN, ABORT, FAILSAFE}"
    using Cons.prems by (rule tick_terminal_closed)
  note ih = Cons.IH [OF c]
  show ?case
  proof (intro conjI impI)
    show "fsm_state (run_ticks f (i # ins)) \<in> {TOUCHDOWN, ABORT, FAILSAFE}"
      using ih by simp
    show "fsm_state (reset f) = INIT" by (simp add: reset_def)
    assume a: "\<forall>i\<in>set (i # ins). mavlink_connected i \<and> camera_connected i \<and> \<not> abort_command i
                \<and> \<not> (human_present i \<and> fsm_state f = TOUCHDOWN)"
    then have s: "fsm_state (fst (tick i f)) = fsm_state f"
      using tick_terminal_same [OF Cons.prems, of i] by simp
    from a s ih show "fsm_state (run_ticks f (i # ins)) = fsm_state f" by simp
  qed
qed

theorem terminal_states_closed_witness:
  "fsm_state (default_fsm\<lparr>fsm_state := ABORT\<rparr>) \<in> {TOUCHDOWN, ABORT, FAILSAFE}
   \<and> mavlink_connected (approach_inputs (Fin 1)) \<and> camera_connected (approach_inputs (Fin 1))
   \<and> \<not> abort_command (approach_inputs (Fin 1))
   \<and> fsm_state (run_ticks (default_fsm\<lparr>fsm_state := ABORT\<rparr>)
        [(approach_inputs (Fin 0))\<lparr>human_present := True\<rparr>, approach_inputs (Fin 1)]) = ABORT
   \<and> fsm_state (reset (default_fsm\<lparr>fsm_state := ABORT\<rparr>)) = INIT"
  using terminal_states_closed
    [of "default_fsm\<lparr>fsm_state := ABORT\<rparr>"
        "[(approach_inputs (Fin 0))\<lparr>human_present := True\<rparr>, approach_inputs (Fin 1)]"]
  by (simp add: approach_inputs_def default_inputs_def)

section \<open>Human presence\<close>

text \<open>
  C2, as stated, fails: the link test and the abort command are tested before human
  presence. In \<open>SEARCH\<close>, reached from a fresh instance, a tick with a human present and
  the MAVLink link down ends in \<open>FAILSAFE\<close> with reason \<open>link_lost\<close>, and one with a
  human present and the abort command set ends in \<open>ABORT\<close> with reason
  \<open>external_command\<close>.
\<close>

theorem human_present_overridden:
  "fsm_state (run_ticks default_fsm
      [default_inputs (Fin 0), (default_inputs (Fin 1))\<lparr>arm_command := True\<rparr>]) = SEARCH
   \<and> snd (tick ((default_inputs (Fin 2))\<lparr>human_present := True, mavlink_connected := False\<rparr>)
        (run_ticks default_fsm
          [default_inputs (Fin 0), (default_inputs (Fin 1))\<lparr>arm_command := True\<rparr>]))
     = \<lparr> state = FAILSAFE, publish_landing_target = False, abort_reason = Some ''link_lost'',
         confidence_gain = Fin 1, state_changed = True \<rparr>
   \<and> snd (tick ((default_inputs (Fin 2))\<lparr>human_present := True, abort_command := True\<rparr>)
        (run_ticks default_fsm
          [default_inputs (Fin 0), (default_inputs (Fin 1))\<lparr>arm_command := True\<rparr>]))
     = \<lparr> state = ABORT, publish_landing_target = False, abort_reason = Some ''external_command'',
         confidence_gain = Fin 1, state_changed = True \<rparr>"
  by (simp add: fsm_eval)

text \<open>
  C2, amended. With both links connected and no abort command, a tick with a human
  present in any state other than \<open>INIT\<close>, \<open>IDLE\<close>, \<open>ABORT\<close> and \<open>FAILSAFE\<close> ends in
  \<open>ABORT\<close> with reason \<open>human_present\<close>, whatever the remaining input fields hold.
\<close>

theorem tick_human_present_abort:
  assumes "human_present i"
    and "mavlink_connected i" and "camera_connected i" and "\<not> abort_command i"
    and "fsm_state f \<notin> {INIT, IDLE, ABORT, FAILSAFE}"
  shows "fsm_state (fst (tick i f)) = ABORT
       \<and> state (snd (tick i f)) = ABORT
       \<and> abort_reason (snd (tick i f)) = Some ''human_present''"
  using assms by (auto simp: tick_def Let_def transition_to_def make_output_def)

theorem tick_human_present_abort_witness:
  "human_present ((approach_inputs (Fin 0))\<lparr>human_present := True\<rparr>)
   \<and> fsm_state (default_fsm\<lparr>fsm_state := DESCEND\<rparr>) \<notin> {INIT, IDLE, ABORT, FAILSAFE}
   \<and> state (snd (tick ((approach_inputs (Fin 0))\<lparr>human_present := True\<rparr>)
                     (default_fsm\<lparr>fsm_state := DESCEND\<rparr>))) = ABORT
   \<and> abort_reason (snd (tick ((approach_inputs (Fin 0))\<lparr>human_present := True\<rparr>)
                     (default_fsm\<lparr>fsm_state := DESCEND\<rparr>))) = Some ''human_present''"
  using tick_human_present_abort
    [of "(approach_inputs (Fin 0))\<lparr>human_present := True\<rparr>" "default_fsm\<lparr>fsm_state := DESCEND\<rparr>"]
  by (simp add: approach_inputs_def default_inputs_def)

section \<open>Determinism\<close>

lemma thresholds_tick: "thresholds (fst (tick i f)) = thresholds f"
  by (cases "fsm_state f")
     (simp_all add: thresholds_def tick_def Let_def transition_to_def handle_init_def
        handle_idle_def handle_search_def handle_acquire_def handle_align_def
        handle_descend_def handle_touchdown_def handle_abort_def handle_failsafe_def
        handle_target_lost_def)

lemma thresholds_run_ticks: "thresholds (run_ticks f ins) = thresholds f"
  by (induction ins arbitrary: f) (simp_all add: thresholds_tick)

lemma reset_thresholds: "thresholds f1 = thresholds f2 \<Longrightarrow> reset f1 = reset f2"
  by (cases f1, cases f2) (simp add: thresholds_def reset_def)

text \<open>
  C9. \<open>tick\<close> reads the instance and its argument only, and \<open>reset\<close> clears every field
  that \<open>tick\<close> assigns. So whatever ticks an instance has seen before, after \<open>reset\<close>
  it answers a sequence of inputs with the same sequence of outputs as it does after a
  \<open>reset\<close> with no history: replaying a sequence from a fresh \<open>reset\<close> gives identical
  outputs.
\<close>

theorem replay_deterministic:
  "run_outputs (reset (run_ticks f history)) ins = run_outputs (reset f) ins"
  using reset_thresholds [OF thresholds_run_ticks, of f history] by simp

section \<open>The target-lost timer\<close>

lemma handle_target_lost_starts_timer:
  "last_target_time f = None \<Longrightarrow> \<not> fgt (Fin 0) (target_lost_timeout_s f) \<Longrightarrow>
   handle_target_lost (i\<lparr>timestamp := Fin t\<rparr>) f = f\<lparr>last_target_time := Some (Fin t)\<rparr>"
  by (simp add: handle_target_lost_def Let_def fsub_def)

lemma handle_target_lost_timeout:
  "last_target_time f = Some (Fin t0) \<Longrightarrow> target_lost_timeout_s f = Fin d \<Longrightarrow>
   d < t - t0 \<Longrightarrow>
   handle_target_lost (i\<lparr>timestamp := Fin t\<rparr>) f
     = (transition_to SEARCH f)\<lparr>last_target_time := None\<rparr>"
  by (simp add: handle_target_lost_def Let_def fsub_def fgt_def transition_to_def)

lemma handle_align_visible_keeps_timer:
  "target_visible i \<Longrightarrow> last_target_time (handle_align i f) = last_target_time f"
  by (simp add: handle_align_def transition_to_def)

lemma handle_descend_visible_keeps_timer:
  "target_visible i \<Longrightarrow> last_target_time (handle_descend i f) = last_target_time f"
  by (simp add: handle_descend_def transition_to_def)

text \<open>
  C4. The timer is started by the first tick without the target and cleared by the
  timeout, but no tick with the target in view clears it: \<open>_handle_align\<close> and
  \<open>_handle_descend\<close> leave \<open>_last_target_time\<close> alone when the target is visible. In
  \<open>ALIGN\<close> with the default timeout of 2 s, the target is lost at \<open>t = 3\<close> (the timer
  starts) and seen again at \<open>t = 4\<close> (the timer still holds 3); the very first tick of a
  new loss at \<open>t = 10\<close> falls back to \<open>SEARCH\<close>, the timeout being measured from the
  old loss.
\<close>

theorem target_lost_timer_kept:
  "fsm_state (run_ticks default_fsm
      [acquire_inputs (Fin 0), acquire_inputs (Fin 1), acquire_inputs (Fin 2)]) = ALIGN
   \<and> last_target_time (run_ticks default_fsm
      [acquire_inputs (Fin 0), acquire_inputs (Fin 1), acquire_inputs (Fin 2),
       (acquire_inputs (Fin 3))\<lparr>target_visible := False\<rparr>]) = Some (Fin 3)
   \<and> last_target_time (run_ticks default_fsm
      [acquire_inputs (Fin 0), acquire_inputs (Fin 1), acquire_inputs (Fin 2),
       (acquire_inputs (Fin 3))\<lparr>target_visible := False\<rparr>,
       acquire_inputs (Fin 4)]) = Some (Fin 3)
   \<and> fsm_state (run_ticks default_fsm
      [acquire_inputs (Fin 0), acquire_inputs (Fin 1), acquire_inputs (Fin 2),
       (acquire_inputs (Fin 3))\<lparr>target_visible := False\<rparr>,
       acquire_inputs (Fin 4)]) = ALIGN
   \<and> fsm_state (run_ticks default_fsm
      [acquire_inputs (Fin 0), acquire_inputs (Fin 1), acquire_inputs (Fin 2),
       (acquire_inputs (Fin 3))\<lparr>target_visible := False\<rparr>,
       acquire_inputs (Fin 4),
       (acquire_inputs (Fin 10))\<lparr>target_visible := False\<rparr>]) = SEARCH"
  by (simp add: fsm_eval)

section \<open>Velocity clamp\<close>

lemma overflow_threshold_gt_one: "1 < overflow_threshold"
  by (simp add: overflow_threshold_def)

lemma py_range_Fin: "\<bar>r\<bar> < overflow_threshold \<Longrightarrow> py_range (Fin r) = Fin r"
  by (simp add: py_range_def)

lemma sqrt_below_threshold:
  assumes "0 \<le> s" and "s < overflow_threshold"
  shows "sqrt s < overflow_threshold"
proof (cases "s \<le> 1")
  case True
  then have "sqrt s \<le> 1" using assms(1) by simp
  then show ?thesis using overflow_threshold_gt_one by linarith
next
  case False
  then have "1 \<le> sqrt s" by simp
  then have "sqrt s * 1 \<le> sqrt s * sqrt s" by (intro mult_left_mono) simp_all
  then have "sqrt s \<le> s" using assms(1) by simp
  then show ?thesis using assms(2) by linarith
qed

lemma scaled_speed:
  fixes x y l :: real
  assumes "0 \<le> l" and "l < sqrt (x\<^sup>2 + y\<^sup>2)"
  shows "sqrt ((x * (l / sqrt (x\<^sup>2 + y\<^sup>2)))\<^sup>2 + (y * (l / sqrt (x\<^sup>2 + y\<^sup>2)))\<^sup>2) = l"
proof -
  define r where "r = sqrt (x\<^sup>2 + y\<^sup>2)"
  have rpos: "0 < r" using assms unfolding r_def by linarith
  have r2: "r\<^sup>2 = x\<^sup>2 + y\<^sup>2" by (simp add: r_def)
  have "(x * (l / r))\<^sup>2 + (y * (l / r))\<^sup>2 = (x\<^sup>2 + y\<^sup>2) * (l / r)\<^sup>2"
    by (simp only: power_mult_distrib distrib_right)
  also have "\<dots> = r\<^sup>2 * (l / r)\<^sup>2" by (simp add: r2)
  also have "\<dots> = l\<^sup>2" using rpos by (simp add: power_divide)
  finally have "sqrt ((x * (l / r))\<^sup>2 + (y * (l / r))\<^sup>2) = sqrt (l\<^sup>2)" by simp
  then show ?thesis using assms(1) by (simp add: r_def)
qed

lemma scaled_component_in_range:
  fixes x y l :: real
  assumes "0 \<le> l" and "l < sqrt (x\<^sup>2 + y\<^sup>2)" and "x\<^sup>2 + y\<^sup>2 < overflow_threshold"
  shows "\<bar>x * (l / sqrt (x\<^sup>2 + y\<^sup>2))\<bar> < overflow_threshold"
proof -
  define r where "r = sqrt (x\<^sup>2 + y\<^sup>2)"
  have rpos: "0 < r" using assms unfolding r_def by linarith
  have rT: "r < overflow_threshold"
    unfolding r_def using assms(3) by (intro sqrt_below_threshold) simp_all
  have "sqrt (x\<^sup>2) \<le> sqrt (x\<^sup>2 + y\<^sup>2)" by (rule real_sqrt_le_mono) simp
  then have xr: "\<bar>x\<bar> \<le> r" by (simp add: r_def)
  have sc: "0 \<le> l / r" "l / r \<le> 1" using assms(1,2) rpos by (simp_all add: r_def)
  have "\<bar>x * (l / r)\<bar> = \<bar>x\<bar> * \<bar>l / r\<bar>" by (rule abs_mult)
  also have "\<dots> = \<bar>x\<bar> * (l / r)" using sc(1) by (simp only: abs_of_nonneg)
  also have "\<dots> \<le> \<bar>x\<bar> * 1" using sc(2) by (intro mult_left_mono) simp_all
  finally have "\<bar>x * (l / r)\<bar> \<le> \<bar>x\<bar>" by simp
  then have "\<bar>x * (l / r)\<bar> < overflow_threshold" using xr rT by linarith
  then show ?thesis unfolding r_def .
qed

lemma clamp_velocity_fin:
  assumes "max_lateral_speed_mps limits = Fin L" and "max_descent_speed_mps limits = Fin D"
    and "0 \<le> L * c" and "L * c < overflow_threshold"
    and "\<bar>D * c\<bar> < overflow_threshold"
    and "x\<^sup>2 + y\<^sup>2 < overflow_threshold"
  shows "clamp_velocity limits (Fin x) (Fin y) (Fin z) (Fin c) =
     Inr (if L * c < sqrt (x\<^sup>2 + y\<^sup>2)
          then (Fin (x * (L * c / sqrt (x\<^sup>2 + y\<^sup>2))), Fin (y * (L * c / sqrt (x\<^sup>2 + y\<^sup>2))),
                Fin (if D * c < z then D * c else z))
          else (Fin x, Fin y, Fin (if D * c < z then D * c else z)))"
proof -
  have sq: "x * x + y * y = x\<^sup>2 + y\<^sup>2" by (simp add: power2_eq_square)
  have xx: "\<not> overflow_threshold \<le> x * x"
    using assms(6) sq by (smt (verit) zero_le_square)
  have yy: "\<not> overflow_threshold \<le> y * y"
    using assms(6) sq by (smt (verit) zero_le_square)
  have px: "py_pow2 (Fin x) = Inr (Fin (x * x))" using xx by (simp add: py_pow2_def)
  have py: "py_pow2 (Fin y) = Inr (Fin (y * y))" using yy by (simp add: py_pow2_def)
  have nn: "0 \<le> x\<^sup>2 + y\<^sup>2" by simp
  have pa: "py_add (Fin (x * x)) (Fin (y * y)) = Fin (x\<^sup>2 + y\<^sup>2)"
    using assms(6) nn by (simp add: py_add_def py_range_Fin sq)
  have ph: "py_pow_half (Fin (x\<^sup>2 + y\<^sup>2)) = Inr (Fin (sqrt (x\<^sup>2 + y\<^sup>2)))"
    using nn by (simp add: py_pow_half_def not_less)
  have ll: "py_mul (Fin L) (Fin c) = Fin (L * c)"
    using assms(3,4) by (simp add: py_mul_def py_range_Fin)
  have dl: "py_mul (Fin D) (Fin c) = Fin (D * c)"
    using assms(5) by (simp add: py_mul_def py_range_Fin)
  show ?thesis
  proof (cases "L * c < sqrt (x\<^sup>2 + y\<^sup>2)")
    case True
    define r where "r = sqrt (x\<^sup>2 + y\<^sup>2)"
    have rpos: "0 < r" using True assms(3) unfolding r_def by linarith
    have "\<bar>L * c / r\<bar> < 1" using True assms(3) rpos by (simp add: r_def)
    then have "\<bar>L * c / r\<bar> < overflow_threshold"
      using overflow_threshold_gt_one by linarith
    then have dv: "py_truediv (Fin (L * c)) (Fin r) = Inr (Fin (L * c / r))"
      using rpos by (simp add: py_truediv_def py_range_Fin)
    have mx: "py_mul (Fin x) (Fin (L * c / r)) = Fin (x * (L * c / r))"
      using scaled_component_in_range [OF assms(3) True assms(6)]
      by (simp add: py_mul_def py_range_Fin r_def)
    have y6: "y\<^sup>2 + x\<^sup>2 < overflow_threshold" using assms(6) by (simp add: add.commute)
    have Ty: "L * c < sqrt (y\<^sup>2 + x\<^sup>2)" using True by (simp add: add.commute)
    have my: "py_mul (Fin y) (Fin (L * c / r)) = Fin (y * (L * c / r))"
      using scaled_component_in_range [OF assms(3) Ty y6]
      by (simp add: py_mul_def py_range_Fin r_def add.commute)
    show ?thesis
      using True assms(1,2) px py pa ph ll dl dv mx my
      by (simp add: clamp_velocity_def Let_def fgt_def r_def)
  next
    case False
    show ?thesis
      using False assms(1,2) px py pa ph ll dl
      by (simp add: clamp_velocity_def Let_def fgt_def)
  qed
qed

text \<open>
  C7, as stated, fails: it quantifies over every velocity, and \<open>clamp_velocity\<close> has no
  guard for a velocity that is not finite or whose square overflows. With \<open>vx = inf\<close> the
  lateral speed is \<open>inf\<close>, the scale is \<open>limit / inf = 0.0\<close> and \<open>vx * scale\<close> is
  \<open>inf * 0.0\<close>, that is NaN: the call returns \<open>(nan, 0.0, 0.0)\<close>, whose lateral speed is
  not below any bound. With \<open>vx = 2.0 ** 600\<close> the square \<open>vx ** 2\<close> raises
  \<open>OverflowError\<close> and nothing is returned.
\<close>

theorem clamp_velocity_nonfinite:
  "clamp_velocity default_limits PInf (Fin 0) (Fin 0) (Fin 1) = Inr (NaN, Fin 0, Fin 0)
   \<and> clamp_velocity default_limits (Fin (2 ^ 600)) (Fin 0) (Fin 0) (Fin 1) = Inl OverflowError"
  by (simp add: clamp_eval)

text \<open>
  C7, amended. With finite limits that are not negative (the configuration requires them
  positive), a confidence in \<open>[0, 1]\<close> and a finite velocity with \<open>vx\<^sup>2 + vy\<^sup>2\<close> within
  the range of the floats, \<open>clamp_velocity\<close> returns a velocity whose lateral speed is at
  most \<open>max_lateral_speed_mps * confidence\<close>: the lateral components are both scaled by
  \<open>limit / speed\<close>, reaching the limit exactly, when the speed exceeds it, and returned
  as they are otherwise. The vertical component is returned as it is when it is at most
  \<open>max_descent_speed_mps * confidence\<close>, so whenever it is negative, and replaced by that
  limit otherwise.
\<close>

theorem clamp_velocity_correct:
  assumes "max_lateral_speed_mps limits = Fin L" and "max_descent_speed_mps limits = Fin D"
    and "0 \<le> L" and "L < overflow_threshold" and "0 \<le> D" and "D < overflow_threshold"
    and "0 \<le> c" and "c \<le> 1"
    and "x\<^sup>2 + y\<^sup>2 < overflow_threshold"
  shows "\<exists>x' y' z'.
       clamp_velocity limits (Fin x) (Fin y) (Fin z) (Fin c) = Inr (Fin x', Fin y', Fin z')
     \<and> sqrt (x'\<^sup>2 + y'\<^sup>2) \<le> L * c
     \<and> (L * c < sqrt (x\<^sup>2 + y\<^sup>2) \<longrightarrow>
          x' = x * (L * c / sqrt (x\<^sup>2 + y\<^sup>2)) \<and> y' = y * (L * c / sqrt (x\<^sup>2 + y\<^sup>2))
          \<and> sqrt (x'\<^sup>2 + y'\<^sup>2) = L * c)
     \<and> (sqrt (x\<^sup>2 + y\<^sup>2) \<le> L * c \<longrightarrow> x' = x \<and> y' = y)
     \<and> (z \<le> D * c \<longrightarrow> z' = z)
     \<and> (z < 0 \<longrightarrow> z' = z)
     \<and> (D * c < z \<longrightarrow> z' = D * c)"
proof -
  have lc: "0 \<le> L * c" using assms(3,7) by simp
  have dc: "0 \<le> D * c" using assms(5,7) by simp
  have "L * c \<le> L * 1" using assms(3,8) by (intro mult_left_mono) simp_all
  then have lT: "L * c < overflow_threshold" using assms(4) by simp
  have "D * c \<le> D * 1" using assms(5,8) by (intro mult_left_mono) simp_all
  then have dT: "\<bar>D * c\<bar> < overflow_threshold" using assms(6) dc by simp
  note eq = clamp_velocity_fin [OF assms(1,2) lc lT dT assms(9), of z]
  show ?thesis
  proof (cases "L * c < sqrt (x\<^sup>2 + y\<^sup>2)")
    case True
    have sp: "sqrt ((x * (L * c / sqrt (x\<^sup>2 + y\<^sup>2)))\<^sup>2 + (y * (L * c / sqrt (x\<^sup>2 + y\<^sup>2)))\<^sup>2) = L * c"
      using scaled_speed [OF lc True] .
    show ?thesis
      apply (rule exI [of _ "x * (L * c / sqrt (x\<^sup>2 + y\<^sup>2))"])
      apply (rule exI [of _ "y * (L * c / sqrt (x\<^sup>2 + y\<^sup>2))"])
      apply (rule exI [of _ "if D * c < z then D * c else z"])
      using True sp dc eq by auto
  next
    case False
    show ?thesis
      apply (rule exI [of _ x])
      apply (rule exI [of _ y])
      apply (rule exI [of _ "if D * c < z then D * c else z"])
      using False dc eq by auto
  qed
qed

theorem clamp_velocity_correct_witness:
  "max_lateral_speed_mps default_limits = Fin (3 / 2)
   \<and> max_descent_speed_mps default_limits = Fin (7 / 10)
   \<and> (3 / 2 :: real) < overflow_threshold \<and> (7 / 10 :: real) < overflow_threshold
   \<and> (2::real)\<^sup>2 + 0\<^sup>2 < overflow_threshold
   \<and> clamp_velocity default_limits (Fin 2) (Fin 0) (Fin 1) (Fin (1 / 2))
       = Inr (Fin (3 / 4), Fin 0, Fin (7 / 20))
   \<and> clamp_velocity default_limits (Fin (1 / 2)) (Fin 0) (Fin (- 1)) (Fin (1 / 2))
       = Inr (Fin (1 / 2), Fin 0, Fin (- 1))"
proof -
  have h1: "max_lateral_speed_mps default_limits = Fin (3 / 2)"
    and h2: "max_descent_speed_mps default_limits = Fin (7 / 10)"
    by (simp_all add: default_limits_def)
  have t1: "(3 / 2 :: real) < overflow_threshold" and t2: "(7 / 10 :: real) < overflow_threshold"
    and t3: "(2::real)\<^sup>2 + 0\<^sup>2 < overflow_threshold"
    and t4: "(1 / 2 :: real)\<^sup>2 + 0\<^sup>2 < overflow_threshold"
    by (simp_all add: overflow_threshold_def power2_eq_square)
  have s1: "sqrt ((2::real)\<^sup>2 + 0\<^sup>2) = 2" and s2: "sqrt ((1 / 2 :: real)\<^sup>2 + 0\<^sup>2) = 1 / 2"
    by simp_all
  from clamp_velocity_correct [OF h1 h2 _ t1 _ t2 _ _ t3, of "1 / 2" 1] s1
  have a: "clamp_velocity default_limits (Fin 2) (Fin 0) (Fin 1) (Fin (1 / 2))
       = Inr (Fin (3 / 4), Fin 0, Fin (7 / 20))"
    by auto
  from clamp_velocity_correct [OF h1 h2 _ t1 _ t2 _ _ t4, of "1 / 2" "- 1"] s2
  have b: "clamp_velocity default_limits (Fin (1 / 2)) (Fin 0) (Fin (- 1)) (Fin (1 / 2))
       = Inr (Fin (1 / 2), Fin 0, Fin (- 1))"
    by auto
  show ?thesis using h1 h2 t1 t2 t3 a b by simp
qed

section \<open>Outlier rejection\<close>

lemma fmaximum_Fin: "fmaximum (Fin a) (Fin b) = Fin (max a b)"
  by (simp add: fmaximum_def max_def)

lemma mahal_nonneg:
  fixes d1 d2 d3 v1 v2 v3 :: real
  shows "0 \<le> d1 * d1 / max v1 (1 / 1000000) + d2 * d2 / max v2 (1 / 1000000)
            + d3 * d3 / max v3 (1 / 1000000)"
proof -
  have p: "0 < max v (1 / 1000000)" for v :: real by (simp add: max_def)
  have q: "0 \<le> d * d / max v (1 / 1000000)" for d v :: real
    using p [of v] by (simp add: divide_nonneg_pos)
  show ?thesis using q [of d1 v1] q [of d2 v2] q [of d3 v3] by linarith
qed

text \<open>On finite values \<open>_is_outlier\<close> is the test of the diagonal Mahalanobis distance.\<close>

lemma is_outlier_fin:
  assumes "smoother_state sm = Some (vfin (s1, s2, s3))"
    and "smoother_variance sm = Some (vfin (v1, v2, v3))"
    and "outlier_threshold sm = Fin thr"
  shows "is_outlier sm (vfin (m1, m2, m3)) =
     (thr < sqrt ((m1 - s1)\<^sup>2 / max v1 (1 / 1000000) + (m2 - s2)\<^sup>2 / max v2 (1 / 1000000)
                  + (m3 - s3)\<^sup>2 / max v3 (1 / 1000000)))"
proof -
  have p: "max v (1 / 1000000) \<noteq> 0" for v :: real by (simp add: max_def)
  have nn: "\<not> (m1 - s1) * (m1 - s1) / max v1 (1 / 1000000)
       + (m2 - s2) * (m2 - s2) / max v2 (1 / 1000000)
       + (m3 - s3) * (m3 - s3) / max v3 (1 / 1000000) < 0"
    using mahal_nonneg [of "m1 - s1" v1 "m2 - s2" v2 "m3 - s3" v3] by linarith
  show ?thesis
    using assms p nn
    by (simp add: is_outlier_def Let_def fsub_def fpow2_def fmaximum_Fin fgt_def
        power2_eq_square)
qed

lemma sqrt_gt_iff: "0 \<le> t \<Longrightarrow> 0 \<le> x \<Longrightarrow> (t < sqrt x) = (t\<^sup>2 < x)"
  by (metis real_sqrt_less_iff real_sqrt_abs abs_of_nonneg)

text \<open>
  C6. On an initialized smoother with finite state \<open>s\<close> and variance \<open>v\<close>, an update
  with a measurement \<open>m\<close> whose distance
  \<open>sqrt (\<Sum>i. (m\<^sub>i - s\<^sub>i)\<^sup>2 / max v\<^sub>i 1e-6)\<close> exceeds the outlier threshold
  changes the stored variance only, every component of it multiplied by 1.5; the stored
  position and velocity stay, and the pose returned holds the unchanged position and
  velocity and the inflated variance.
\<close>

theorem update_outlier_rejected:
  assumes "smoother_state sm = Some (vfin (s1, s2, s3))"
    and "smoother_variance sm = Some (vfin (v1, v2, v3))"
    and "outlier_threshold sm = Fin thr"
    and "thr < sqrt ((m1 - s1)\<^sup>2 / max v1 (1 / 1000000) + (m2 - s2)\<^sup>2 / max v2 (1 / 1000000)
                  + (m3 - s3)\<^sup>2 / max v3 (1 / 1000000))"
  shows "update sm (vfin (m1, m2, m3)) mv ts =
     Inr (sm\<lparr> smoother_variance := Some (vfin (v1 * (3 / 2), v2 * (3 / 2), v3 * (3 / 2))) \<rparr>,
          \<lparr> pose_position = vfin (s1, s2, s3),
            pose_variance = vfin (v1 * (3 / 2), v2 * (3 / 2), v3 * (3 / 2)),
            pose_velocity = smoother_velocity sm, pose_is_valid = True,
            pose_timestamp = ts \<rparr>)"
proof -
  have "is_outlier sm (vfin (m1, m2, m3))"
    using is_outlier_fin [OF assms(1,2,3), of m1 m2 m3] assms(4) by simp
  then show ?thesis
    using assms(1,2) by (simp add: update_def Let_def)
qed

theorem update_outlier_rejected_witness:
  "update smoother_one (vfin (9, 1, 1)) (Fin (1 / 10)) (Fin 1) =
     Inr (smoother_one\<lparr> smoother_variance := Some (vfin (3 / 2, 3 / 2, 3 / 2)) \<rparr>,
          \<lparr> pose_position = vfin (1, 1, 1), pose_variance = vfin (3 / 2, 3 / 2, 3 / 2),
            pose_velocity = vfin (0, 0, 0), pose_is_valid = True, pose_timestamp = Fin 1 \<rparr>)"
proof -
  have h: "(4::real) < sqrt ((9 - 1)\<^sup>2 / max 1 (1 / 1000000) + (1 - 1)\<^sup>2 / max 1 (1 / 1000000)
                  + (1 - 1)\<^sup>2 / max 1 (1 / 1000000))"
    by (simp add: sqrt_gt_iff)
  have a: "smoother_state smoother_one = Some (vfin (1, 1, 1))"
    and b: "smoother_variance smoother_one = Some (vfin (1, 1, 1))"
    and c: "outlier_threshold smoother_one = Fin 4"
    by (simp_all add: smoother_one_def smoother_half_def)
  show ?thesis
    using update_outlier_rejected [OF a b c h, of "Fin (1 / 10)" "Fin 1"]
    by (simp add: smoother_one_def smoother_half_def vfull_def)
qed

section \<open>Accepted samples\<close>

text \<open>
  The whole effect of an accepted update on finite values, the stored time being set.
\<close>

lemma update_accepted_fin:
  assumes "smoother_state sm = Some (vfin (s1, s2, s3))"
    and "smoother_variance sm = Some (vfin (v1, v2, v3))"
    and "smoother_velocity sm = vfin (w1, w2, w3)"
    and "alpha sm = Fin a"
    and "last_time sm = Some (Fin lt)"
    and "\<not> is_outlier sm (vfin (m1, m2, m3))"
  shows "update sm (vfin (m1, m2, m3)) (Fin mv) (Fin t) =
     (let vel = (if lt < t
                 then vfin (a * ((m1 - s1) / (t - lt)) + (1 - a) * w1,
                            a * ((m2 - s2) / (t - lt)) + (1 - a) * w2,
                            a * ((m3 - s3) / (t - lt)) + (1 - a) * w3)
                 else vfin (w1, w2, w3));
          pos = vfin (a * m1 + (1 - a) * s1, a * m2 + (1 - a) * s2, a * m3 + (1 - a) * s3);
          var = vfin (a * mv + (1 - a) * v1, a * mv + (1 - a) * v2, a * mv + (1 - a) * v3)
      in Inr (sm\<lparr> smoother_velocity := vel, smoother_state := Some pos,
                  smoother_variance := Some var, last_time := Some (Fin t) \<rparr>,
              \<lparr> pose_position = pos, pose_variance = var, pose_velocity = vel,
                pose_is_valid = True, pose_timestamp = Fin t \<rparr>))"
  using assms by (simp add: update_def Let_def fgt_def fsub_def)

text \<open>
  C8. On an initialized smoother with finite state and variance, an update with a finite
  measurement that is not rejected as an outlier stores and returns the position
  \<open>alpha * measurement + (1 - alpha) * state\<close> and the variance
  \<open>alpha * measurement_variance + (1 - alpha) * variance\<close>, component by component. With
  \<open>alpha = 0.5\<close>, \<open>update([1, 1, 1], t=0)\<close> returns the position \<open>[1, 1, 1]\<close> and the
  following \<open>update([3, 1, 1], t=1)\<close> returns \<open>[2, 1, 1]\<close>.
\<close>

theorem update_accepted_smoothing:
  assumes "smoother_state sm = Some (vfin (s1, s2, s3))"
    and "smoother_variance sm = Some (vfin (v1, v2, v3))"
    and "alpha sm = Fin a"
    and "\<not> is_outlier sm (vfin (m1, m2, m3))"
  shows "(\<exists>sm' p. update sm (vfin (m1, m2, m3)) (Fin mv) ts = Inr (sm', p)
          \<and> smoother_state sm'
              = Some (vfin (a * m1 + (1 - a) * s1, a * m2 + (1 - a) * s2, a * m3 + (1 - a) * s3))
          \<and> smoother_variance sm'
              = Some (vfin (a * mv + (1 - a) * v1, a * mv + (1 - a) * v2, a * mv + (1 - a) * v3))
          \<and> pose_position p
              = vfin (a * m1 + (1 - a) * s1, a * m2 + (1 - a) * s2, a * m3 + (1 - a) * s3)
          \<and> pose_variance p
              = vfin (a * mv + (1 - a) * v1, a * mv + (1 - a) * v2, a * mv + (1 - a) * v3))
       \<and> map_sum id (map pose_position \<circ> snd)
           (case ExpSmoother_init (Fin (1 / 2)) (Fin 4) (Fin 1) of
              Inl e \<Rightarrow> Inl e
            | Inr sm0 \<Rightarrow>
                update_seq sm0
                  [(vfin (1, 1, 1), Fin (1 / 10), Fin 0), (vfin (3, 1, 1), Fin (1 / 10), Fin 1)])
         = Inr [vfin (1, 1, 1), vfin (2, 1, 1)]"
proof (rule conjI)
  show "\<exists>sm' p. update sm (vfin (m1, m2, m3)) (Fin mv) ts = Inr (sm', p)
          \<and> smoother_state sm'
              = Some (vfin (a * m1 + (1 - a) * s1, a * m2 + (1 - a) * s2, a * m3 + (1 - a) * s3))
          \<and> smoother_variance sm'
              = Some (vfin (a * mv + (1 - a) * v1, a * mv + (1 - a) * v2, a * mv + (1 - a) * v3))
          \<and> pose_position p
              = vfin (a * m1 + (1 - a) * s1, a * m2 + (1 - a) * s2, a * m3 + (1 - a) * s3)
          \<and> pose_variance p
              = vfin (a * mv + (1 - a) * v1, a * mv + (1 - a) * v2, a * mv + (1 - a) * v3)"
    using assms by (simp add: update_def Let_def fsub_def)
next
  show "map_sum id (map pose_position \<circ> snd)
           (case ExpSmoother_init (Fin (1 / 2)) (Fin 4) (Fin 1) of
              Inl e \<Rightarrow> Inl e
            | Inr sm0 \<Rightarrow>
                update_seq sm0
                  [(vfin (1, 1, 1), Fin (1 / 10), Fin 0), (vfin (3, 1, 1), Fin (1 / 10), Fin 1)])
         = Inr [vfin (1, 1, 1), vfin (2, 1, 1)]"
    by (simp add: smoother_eval sqrt_gt_iff)
qed

theorem update_accepted_smoothing_witness:
  "\<not> is_outlier smoother_one (vfin (3, 1, 1))
   \<and> (\<exists>sm' p. update smoother_one (vfin (3, 1, 1)) (Fin (1 / 10)) (Fin 1) = Inr (sm', p)
          \<and> smoother_state sm' = Some (vfin (2, 1, 1))
          \<and> smoother_variance sm' = Some (vfin (11 / 20, 11 / 20, 11 / 20))
          \<and> pose_position p = vfin (2, 1, 1))"
proof -
  have a: "smoother_state smoother_one = Some (vfin (1, 1, 1))"
    and b: "smoother_variance smoother_one = Some (vfin (1, 1, 1))"
    and c: "outlier_threshold smoother_one = Fin 4"
    and d: "alpha smoother_one = Fin (1 / 2)"
    by (simp_all add: smoother_one_def smoother_half_def)
  have n: "\<not> is_outlier smoother_one (vfin (3, 1, 1))"
    using is_outlier_fin [OF a b c, of 3 1 1] by (simp add: sqrt_gt_iff)
  show ?thesis
    using n update_accepted_smoothing [OF a b d n, of "1 / 10" "Fin 1"] by auto
qed

section \<open>The velocity estimate\<close>

text \<open>
  C10. On an initialized smoother, an accepted update whose timestamp is not later than
  the stored one applies the smoothing of position and variance and leaves the velocity
  estimate as it is. The finite difference is divided by
  \<open>dt = timestamp - last_timestamp\<close> only on the branch where the timestamp is later
  than the stored one, that is where \<open>dt\<close> is strictly positive.
\<close>

theorem update_velocity_guard:
  assumes "smoother_state sm = Some (vfin (s1, s2, s3))"
    and "smoother_variance sm = Some (vfin (v1, v2, v3))"
    and "smoother_velocity sm = vfin (w1, w2, w3)"
    and "alpha sm = Fin a"
    and "last_time sm = Some (Fin lt)"
    and "\<not> is_outlier sm (vfin (m1, m2, m3))"
  shows "\<exists>sm' p. update sm (vfin (m1, m2, m3)) (Fin mv) (Fin t) = Inr (sm', p)
       \<and> smoother_state sm'
           = Some (vfin (a * m1 + (1 - a) * s1, a * m2 + (1 - a) * s2, a * m3 + (1 - a) * s3))
       \<and> smoother_variance sm'
           = Some (vfin (a * mv + (1 - a) * v1, a * mv + (1 - a) * v2, a * mv + (1 - a) * v3))
       \<and> (t \<le> lt \<longrightarrow> smoother_velocity sm' = smoother_velocity sm
                      \<and> pose_velocity p = smoother_velocity sm)
       \<and> (lt < t \<longrightarrow> 0 < t - lt
                      \<and> smoother_velocity sm'
                          = vfin (a * ((m1 - s1) / (t - lt)) + (1 - a) * w1,
                                  a * ((m2 - s2) / (t - lt)) + (1 - a) * w2,
                                  a * ((m3 - s3) / (t - lt)) + (1 - a) * w3))"
  using update_accepted_fin [OF assms, of mv t] assms(3) by (auto simp: Let_def)

theorem update_velocity_guard_witness:
  "\<not> is_outlier smoother_one (vfin (3, 1, 1))
   \<and> (\<exists>sm' p. update smoother_one (vfin (3, 1, 1)) (Fin (1 / 10)) (Fin 0) = Inr (sm', p)
          \<and> smoother_state sm' = Some (vfin (2, 1, 1))
          \<and> smoother_velocity sm' = vfin (0, 0, 0)
          \<and> pose_velocity p = vfin (0, 0, 0))"
proof -
  have a: "smoother_state smoother_one = Some (vfin (1, 1, 1))"
    and b: "smoother_variance smoother_one = Some (vfin (1, 1, 1))"
    and c: "outlier_threshold smoother_one = Fin 4"
    and d: "alpha smoother_one = Fin (1 / 2)"
    and e: "smoother_velocity smoother_one = vfin (0, 0, 0)"
    and f: "last_time smoother_one = Some (Fin 0)"
    by (simp_all add: smoother_one_def smoother_half_def vfull_def)
  have n: "\<not> is_outlier smoother_one (vfin (3, 1, 1))"
    using is_outlier_fin [OF a b c, of 3 1 1] by (simp add: sqrt_gt_iff)
  show ?thesis
    using n update_velocity_guard [OF a b e d f n, of "1 / 10" 0] e by auto
qed

section \<open>Non-finite measurements\<close>

lemma upt_0_3: "[0..<3] = [0, 1, 2]"
  by code_simp

lemma upt_0_6: "[0..<6] = [0, 1, 2, 3, 4, 5]"
  by code_simp

lemma dot3_unfold:
  "dot 3 u v = fadd (fadd (fadd (Fin 0) (fmul (u 0) (v 0))) (fmul (u 1) (v 1))) (fmul (u 2) (v 2))"
  by (simp add: dot_def upt_0_3)

lemma dot6_unfold:
  "dot 6 u v =
     fadd (fadd (fadd (fadd (fadd (fadd (Fin 0) (fmul (u 0) (v 0))) (fmul (u 1) (v 1)))
       (fmul (u 2) (v 2))) (fmul (u 3) (v 3))) (fmul (u 4) (v 4))) (fmul (u 5) (v 5))"
  by (simp add: dot_def upt_0_6)

lemma fadd_NaN [simp]: "fadd x NaN = NaN" "fadd NaN x = NaN"
  by (cases x; simp)+

lemma fmul_NaN [simp]: "fmul x NaN = NaN" "fmul NaN x = NaN"
  by (cases x; simp)+

lemma dot3_NaN:
  assumes "v 0 = NaN \<or> v 1 = NaN \<or> v 2 = NaN"
  shows "dot 3 u v = NaN"
  using assms by (auto simp: dot3_unfold)

lemma np_linalg_inv_error: "np_linalg_inv A = Inl e \<Longrightarrow> e = LinAlgError"
  by (auto simp: np_linalg_inv_def split: if_splits)

lemma kalman_first_update:
  assumes "\<not> kf_initialized k"
  shows "KalmanFilter3D_update k (m1, m2, m3) dt =
     Inr (k\<lparr> kf_x := (\<lambda>i. if i < 3 then vec_of (m1, m2, m3) i else kf_x k i),
               kf_initialized := True \<rparr>,
          \<lparr> pose_position = (m1, m2, m3),
            pose_variance = (kf_P k 0 0, kf_P k 1 1, kf_P k 2 2),
            pose_velocity = (kf_x k 3, kf_x k 4, kf_x k 5),
            pose_is_valid = True, pose_timestamp = Fin 0 \<rparr>)"
  using assms by (simp add: KalmanFilter3D_update_def Let_def kalman_pose_def)

lemma kalman_nan_update:
  assumes "kf_initialized k" and "m1 = NaN \<or> m2 = NaN \<or> m3 = NaN"
  shows "KalmanFilter3D_update k (m1, m2, m3) dt = Inl LinAlgError
       \<or> (\<exists>k' p. KalmanFilter3D_update k (m1, m2, m3) dt = Inr (k', p)
             \<and> (\<forall>i. kf_x k' i = NaN)
             \<and> pose_position p = (NaN, NaN, NaN) \<and> pose_velocity p = (NaN, NaN, NaN))"
proof -
  have y: "vec_sub (vec_of (m1, m2, m3)) w 0 = NaN \<or> vec_sub (vec_of (m1, m2, m3)) w 1 = NaN
         \<or> vec_sub (vec_of (m1, m2, m3)) w 2 = NaN" for w
    using assms(2) by (auto simp: vec_sub_def fsub_def)
  have x: "vec_add x1 (mat_vec 3 K (vec_sub (vec_of (m1, m2, m3)) w)) i = NaN" for x1 K w i
    using dot3_NaN [OF y [of w], of "K i"] by (simp add: vec_add_def mat_vec_def)
  show ?thesis
    using assms(1) x
    by (auto simp: KalmanFilter3D_update_def Let_def kalman_pose_def
        split: sum.splits dest: np_linalg_inv_error)
qed

lemmas kalman_eval = KalmanFilter3D_init_def kalman_default_def kalman_one_def
  np_zeros_def np_zeros2_def np_eye_def mat_set_def mat_scale_def mat_add_def mat_sub_def
  mat_T_def vec_add_def vec_sub_def dot3_unfold dot6_unfold mat_mul_def mat_vec_def

lemma kalman_one_det:
  "det3 (mat_add (mat_mul 6 (mat_mul 6 (kf_H kalman_one)
       (mat_add (mat_mul 6 (mat_mul 6 (kf_F kalman_one) (kf_P kalman_one)) (mat_T (kf_F kalman_one)))
          (kf_Q kalman_one))) (mat_T (kf_H kalman_one))) (kf_R kalman_one))
   = Fin ((641 / 400) ^ 3)"
  by (simp add: kalman_eval det3_def cofactor3_def fsub_def power3_eq_cube)

lemma kalman_update_raises:
  assumes "kf_initialized k" and "KalmanFilter3D_update k m None = Inl e"
  shows "np_linalg_inv
      (mat_add (mat_mul 6 (mat_mul 6 (kf_H k)
         (mat_add (mat_mul 6 (mat_mul 6 (kf_F k) (kf_P k)) (mat_T (kf_F k))) (kf_Q k)))
         (mat_T (kf_H k))) (kf_R k)) = Inl e"
  using assms by (auto simp: KalmanFilter3D_update_def Let_def split: sum.splits)

lemma kalman_one_initialized: "kf_initialized kalman_one"
  by (simp add: kalman_one_def)

lemma kalman_one_no_raise: "KalmanFilter3D_update kalman_one m None \<noteq> Inl e"
proof
  assume "KalmanFilter3D_update kalman_one m None = Inl e"
  from kalman_update_raises [OF kalman_one_initialized this]
  show False by (simp add: np_linalg_inv_def kalman_one_det)
qed

lemma kalman_one_reached:
  "map_sum id fst (KalmanFilter3D_update kalman_default (vfin (1, 1, 1)) None) = Inr kalman_one"
proof -
  have "\<not> kf_initialized kalman_default"
    by (simp add: kalman_default_def KalmanFilter3D_init_def)
  from kalman_first_update [OF this, of "Fin 1" "Fin 1" "Fin 1" None]
  show ?thesis by (simp add: kalman_one_def)
qed

lemma kalman_one_nan:
  "map_sum id (\<lambda>r. (pose_position (snd r), pose_velocity (snd r)))
     (KalmanFilter3D_update kalman_one (NaN, Fin 1, Fin 1) None)
   = Inr ((NaN, NaN, NaN), (NaN, NaN, NaN))"
  using kalman_nan_update [OF kalman_one_initialized, of NaN "Fin 1" "Fin 1" None]
    kalman_one_no_raise [of "(NaN, Fin 1, Fin 1)" LinAlgError]
  by auto

text \<open>
  C5, as stated, fails: neither filter tests a measurement for finiteness, the first
  update of either filter adopts the measurement as the position with no test at all, and
  \<open>KalmanFilter3D.update\<close> has no outlier test on any update. The first update
  \<open>update([nan, 1, 1])\<close> stores and returns the position \<open>[nan, 1, 1]\<close> in the
  exponential smoother and in the Kalman filter; on the Kalman filter initialized by
  \<open>update([1, 1, 1])\<close>, the update \<open>update([nan, 1, 1])\<close> returns a position and a
  velocity that are NaN in every component.
\<close>

theorem first_update_adopts_nan:
  "map_sum id (\<lambda>r. (smoother_state (fst r), pose_position (snd r)))
     (case ExpSmoother_init (Fin (1 / 2)) (Fin 4) (Fin 1) of
        Inl e \<Rightarrow> Inl e
      | Inr sm0 \<Rightarrow> update sm0 (NaN, Fin 1, Fin 1) (Fin (1 / 10)) (Fin 0))
     = Inr (Some (NaN, Fin 1, Fin 1), (NaN, Fin 1, Fin 1))
   \<and> map_sum id (pose_position \<circ> snd)
       (KalmanFilter3D_update kalman_default (NaN, Fin 1, Fin 1) None)
     = Inr (NaN, Fin 1, Fin 1)
   \<and> map_sum id fst (KalmanFilter3D_update kalman_default (vfin (1, 1, 1)) None) = Inr kalman_one
   \<and> map_sum id (\<lambda>r. (pose_position (snd r), pose_velocity (snd r)))
       (KalmanFilter3D_update kalman_one (NaN, Fin 1, Fin 1) None)
     = Inr ((NaN, NaN, NaN), (NaN, NaN, NaN))"
proof (intro conjI)
  show "map_sum id (\<lambda>r. (smoother_state (fst r), pose_position (snd r)))
     (case ExpSmoother_init (Fin (1 / 2)) (Fin 4) (Fin 1) of
        Inl e \<Rightarrow> Inl e
      | Inr sm0 \<Rightarrow> update sm0 (NaN, Fin 1, Fin 1) (Fin (1 / 10)) (Fin 0))
     = Inr (Some (NaN, Fin 1, Fin 1), (NaN, Fin 1, Fin 1))"
    by (simp add: ExpSmoother_init_def update_def Let_def)
  show "map_sum id (pose_position \<circ> snd)
       (KalmanFilter3D_update kalman_default (NaN, Fin 1, Fin 1) None)
     = Inr (NaN, Fin 1, Fin 1)"
    by (simp add: KalmanFilter3D_update_def Let_def kalman_pose_def kalman_default_def
        KalmanFilter3D_init_def)
  show "map_sum id fst (KalmanFilter3D_update kalman_default (vfin (1, 1, 1)) None) = Inr kalman_one"
    by (rule kalman_one_reached)
  show "map_sum id (\<lambda>r. (pose_position (snd r), pose_velocity (snd r)))
       (KalmanFilter3D_update kalman_one (NaN, Fin 1, Fin 1) None)
     = Inr ((NaN, NaN, NaN), (NaN, NaN, NaN))"
    by (rule kalman_one_nan)
qed

lemma inf_component_div:
  assumes "m \<noteq> NaN" and "\<not> is_finite m"
  shows "fdiv (fmul (fsub m (Fin s)) (fsub m (Fin s))) (Fin (max v (1 / 1000000))) = PInf"
  using assms by (cases m) (simp_all add: fsub_def max_def)

lemma any_component_div:
  assumes "m \<noteq> NaN"
  shows "fdiv (fmul (fsub m (Fin s)) (fsub m (Fin s))) (Fin (max v (1 / 1000000))) = PInf
       \<or> (\<exists>q. 0 \<le> q
             \<and> fdiv (fmul (fsub m (Fin s)) (fsub m (Fin s))) (Fin (max v (1 / 1000000))) = Fin q)"
proof (cases m)
  case (Fin x)
  have "max v (1 / 1000000) \<noteq> 0" by (simp add: max_def)
  moreover have "0 \<le> (x - s) * (x - s) / max v (1 / 1000000)"
    by (simp add: max_def)
  ultimately show ?thesis using Fin by (simp add: fsub_def)
qed (use assms in \<open>simp_all add: fsub_def max_def\<close>)

lemma fadd3_inf:
  assumes "a = PInf \<or> (\<exists>q. 0 \<le> q \<and> a = Fin q)"
    and "b = PInf \<or> (\<exists>q. 0 \<le> q \<and> b = Fin q)"
    and "c = PInf \<or> (\<exists>q. 0 \<le> q \<and> c = Fin q)"
    and "a = PInf \<or> b = PInf \<or> c = PInf"
  shows "fadd (fadd a b) c = PInf"
  using assms by auto

lemma is_outlier_inf:
  assumes "smoother_state sm = Some (vfin (s1, s2, s3))"
    and "smoother_variance sm = Some (vfin (v1, v2, v3))"
    and "outlier_threshold sm = Fin thr"
    and "m1 \<noteq> NaN" and "m2 \<noteq> NaN" and "m3 \<noteq> NaN"
    and "\<not> (is_finite m1 \<and> is_finite m2 \<and> is_finite m3)"
  shows "is_outlier sm (m1, m2, m3)"
proof -
  have "fadd (fadd (fdiv (fmul (fsub m1 (Fin s1)) (fsub m1 (Fin s1))) (Fin (max v1 (1 / 1000000))))
                   (fdiv (fmul (fsub m2 (Fin s2)) (fsub m2 (Fin s2))) (Fin (max v2 (1 / 1000000)))))
             (fdiv (fmul (fsub m3 (Fin s3)) (fsub m3 (Fin s3))) (Fin (max v3 (1 / 1000000)))) = PInf"
    using any_component_div [OF assms(4), of s1 v1] any_component_div [OF assms(5), of s2 v2]
      any_component_div [OF assms(6), of s3 v3] assms(7)
      inf_component_div [OF assms(4), of s1 v1] inf_component_div [OF assms(5), of s2 v2]
      inf_component_div [OF assms(6), of s3 v3]
    by (intro fadd3_inf) auto
  then show ?thesis
    using assms(1,2,3)
    by (simp add: is_outlier_def Let_def fpow2_def fmaximum_Fin fgt_def)
qed

lemma smoother_infinite_rejected:
  assumes "smoother_state sm = Some (vfin (s1, s2, s3))"
    and "smoother_variance sm = Some (vfin (v1, v2, v3))"
    and "outlier_threshold sm = Fin thr"
    and "m1 \<noteq> NaN" and "m2 \<noteq> NaN" and "m3 \<noteq> NaN"
    and "\<not> (is_finite m1 \<and> is_finite m2 \<and> is_finite m3)"
  shows "update sm (m1, m2, m3) mv ts =
     Inr (sm\<lparr> smoother_variance := Some (vfin (v1 * (3 / 2), v2 * (3 / 2), v3 * (3 / 2))) \<rparr>,
          \<lparr> pose_position = vfin (s1, s2, s3),
            pose_variance = vfin (v1 * (3 / 2), v2 * (3 / 2), v3 * (3 / 2)),
            pose_velocity = smoother_velocity sm, pose_is_valid = True,
            pose_timestamp = ts \<rparr>)"
  using is_outlier_inf [OF assms] assms(1,2) by (simp add: update_def Let_def)

lemma smoother_first_update:
  assumes "smoother_state sm = None"
  shows "update sm m mv ts =
     Inr (sm\<lparr> smoother_state := Some m,
               smoother_variance := Some (vfull (initial_variance sm)),
               last_time := Some ts \<rparr>,
          \<lparr> pose_position = m, pose_variance = vfull (initial_variance sm),
            pose_velocity = smoother_velocity sm, pose_is_valid = True,
            pose_timestamp = ts \<rparr>)"
  using assms by (simp add: update_def Let_def)

text \<open>
  C5, amended. The exponential smoother rejects a measurement as an outlier once it is
  initialized: with finite state, variance and threshold, an update with a measurement
  that has an infinite component and no NaN component returns, leaves the stored position
  and velocity as they are, multiplies the stored variance by 1.5, and returns the
  unchanged position. The first update of either filter adopts the measurement as the
  position, whatever its components. The Kalman filter has no outlier test: a later
  update with a NaN component in the measurement either raises \<open>LinAlgError\<close> (the
  innovation covariance is singular) or returns a state whose components are all NaN.
\<close>

theorem nonfinite_measurement_handling:
  "(smoother_state sm = Some (vfin (s1, s2, s3))
      \<and> smoother_variance sm = Some (vfin (v1, v2, v3))
      \<and> outlier_threshold sm = Fin thr
      \<and> m1 \<noteq> NaN \<and> m2 \<noteq> NaN \<and> m3 \<noteq> NaN
      \<and> \<not> (is_finite m1 \<and> is_finite m2 \<and> is_finite m3)
    \<longrightarrow> update sm (m1, m2, m3) mv ts =
          Inr (sm\<lparr> smoother_variance := Some (vfin (v1 * (3 / 2), v2 * (3 / 2), v3 * (3 / 2))) \<rparr>,
               \<lparr> pose_position = vfin (s1, s2, s3),
                 pose_variance = vfin (v1 * (3 / 2), v2 * (3 / 2), v3 * (3 / 2)),
                 pose_velocity = smoother_velocity sm, pose_is_valid = True,
                 pose_timestamp = ts \<rparr>))
   \<and> (smoother_state sm0 = None
    \<longrightarrow> update sm0 m mv ts =
          Inr (sm0\<lparr> smoother_state := Some m,
                     smoother_variance := Some (vfull (initial_variance sm0)),
                     last_time := Some ts \<rparr>,
               \<lparr> pose_position = m, pose_variance = vfull (initial_variance sm0),
                 pose_velocity = smoother_velocity sm0, pose_is_valid = True,
                 pose_timestamp = ts \<rparr>))
   \<and> (\<not> kf_initialized k0
    \<longrightarrow> KalmanFilter3D_update k0 (a1, a2, a3) dt =
          Inr (k0\<lparr> kf_x := (\<lambda>i. if i < 3 then vec_of (a1, a2, a3) i else kf_x k0 i),
                    kf_initialized := True \<rparr>,
               \<lparr> pose_position = (a1, a2, a3),
                 pose_variance = (kf_P k0 0 0, kf_P k0 1 1, kf_P k0 2 2),
                 pose_velocity = (kf_x k0 3, kf_x k0 4, kf_x k0 5),
                 pose_is_valid = True, pose_timestamp = Fin 0 \<rparr>))
   \<and> (kf_initialized k \<and> (n1 = NaN \<or> n2 = NaN \<or> n3 = NaN)
    \<longrightarrow> KalmanFilter3D_update k (n1, n2, n3) dt = Inl LinAlgError
        \<or> (\<exists>k' p. KalmanFilter3D_update k (n1, n2, n3) dt = Inr (k', p)
              \<and> (\<forall>i. kf_x k' i = NaN)
              \<and> pose_position p = (NaN, NaN, NaN) \<and> pose_velocity p = (NaN, NaN, NaN)))"
  using smoother_infinite_rejected [of sm s1 s2 s3 v1 v2 v3 thr m1 m2 m3 mv ts]
    smoother_first_update [of sm0 m mv ts]
    kalman_first_update [of k0 a1 a2 a3 dt]
    kalman_nan_update [of k n1 n2 n3 dt]
  by blast

theorem nonfinite_measurement_handling_witness:
  "update smoother_one (PInf, Fin 1, NInf) (Fin (1 / 10)) (Fin 1) =
     Inr (smoother_one\<lparr> smoother_variance := Some (vfin (3 / 2, 3 / 2, 3 / 2)) \<rparr>,
          \<lparr> pose_position = vfin (1, 1, 1), pose_variance = vfin (3 / 2, 3 / 2, 3 / 2),
            pose_velocity = vfin (0, 0, 0), pose_is_valid = True, pose_timestamp = Fin 1 \<rparr>)
   \<and> map_sum id (pose_position \<circ> snd)
       (update smoother_half (PInf, Fin 1, Fin 1) (Fin (1 / 10)) (Fin 0)) = Inr (PInf, Fin 1, Fin 1)
   \<and> map_sum id (pose_position \<circ> snd)
       (KalmanFilter3D_update kalman_default (PInf, Fin 1, Fin 1) None) = Inr (PInf, Fin 1, Fin 1)
   \<and> map_sum id (pose_position \<circ> snd)
       (KalmanFilter3D_update kalman_one (Fin 1, NaN, Fin 1) None) = Inr (NaN, NaN, NaN)"
proof -
  have a: "smoother_state smoother_one = Some (vfin (1, 1, 1))"
    and b: "smoother_variance smoother_one = Some (vfin (1, 1, 1))"
    and c: "outlier_threshold smoother_one = Fin 4"
    and d: "smoother_state smoother_half = None"
    and e: "\<not> kf_initialized kalman_default"
    and f: "kf_initialized kalman_one"
    by (simp_all add: smoother_one_def smoother_half_def kalman_default_def kalman_one_def
        KalmanFilter3D_init_def)
  note t = nonfinite_measurement_handling
    [of smoother_one 1 1 1 1 1 1 4 PInf "Fin 1" NInf "Fin (1 / 10)" "Fin 1"
        smoother_half "(PInf, Fin 1, Fin 1)" kalman_default PInf "Fin 1" "Fin 1" None
        kalman_one "Fin 1" NaN "Fin 1"]
  have 1: "update smoother_one (PInf, Fin 1, NInf) (Fin (1 / 10)) (Fin 1) =
     Inr (smoother_one\<lparr> smoother_variance := Some (vfin (3 / 2, 3 / 2, 3 / 2)) \<rparr>,
          \<lparr> pose_position = vfin (1, 1, 1), pose_variance = vfin (3 / 2, 3 / 2, 3 / 2),
            pose_velocity = vfin (0, 0, 0), pose_is_valid = True, pose_timestamp = Fin 1 \<rparr>)"
    using t a b c by (simp add: smoother_one_def smoother_half_def vfull_def)
  have 2: "map_sum id (pose_position \<circ> snd)
       (update smoother_half (PInf, Fin 1, Fin 1) (Fin (1 / 10)) (Fin 0)) = Inr (PInf, Fin 1, Fin 1)"
    using nonfinite_measurement_handling
      [of smoother_one 1 1 1 1 1 1 4 PInf "Fin 1" NInf "Fin (1 / 10)" "Fin 0"
          smoother_half "(PInf, Fin 1, Fin 1)" kalman_default PInf "Fin 1" "Fin 1" None
          kalman_one "Fin 1" NaN "Fin 1"] d
    by simp
  have 3: "map_sum id (pose_position \<circ> snd)
       (KalmanFilter3D_update kalman_default (PInf, Fin 1, Fin 1) None) = Inr (PInf, Fin 1, Fin 1)"
    using t e by simp
  have 4: "map_sum id (pose_position \<circ> snd)
       (KalmanFilter3D_update kalman_one (Fin 1, NaN, Fin 1) None) = Inr (NaN, NaN, NaN)"
    using t f kalman_one_no_raise [of "(Fin 1, NaN, Fin 1)" LinAlgError] by auto
  show ?thesis using 1 2 3 4 by simp
qed

text \<open>
  The outlier test of the initialized exponential smoother compares a distance that is NaN
  as soon as a component of the measurement is: after \<open>update([1, 1, 1], t=0)\<close> on
  \<open>ExpSmoother(alpha=0.5)\<close>, the update \<open>update([nan, 1, 1], t=1)\<close> is accepted.
\<close>

theorem nan_measurement_propagates:
  "map_sum id (\<lambda>r. (smoother_state (fst r), smoother_velocity (fst r), map pose_position (snd r)))
     (case ExpSmoother_init (Fin (1 / 2)) (Fin 4) (Fin 1) of
        Inl e \<Rightarrow> Inl e
      | Inr sm0 \<Rightarrow>
          update_seq sm0
            [(vfin (1, 1, 1), Fin (1 / 10), Fin 0), ((NaN, Fin 1, Fin 1), Fin (1 / 10), Fin 1)])
   = Inr (Some (NaN, Fin 1, Fin 1), (NaN, Fin 0, Fin 0),
          [vfin (1, 1, 1), (NaN, Fin 1, Fin 1)])"
  by (simp add: smoother_eval)

end
